theory Spec2Isabelle
  imports Main "HOL-Library.Sublist" "HOL-Library.Word"
begin

section \<open>Strings and numbers of the runtime\<close>

text \<open>
  A JavaScript string is modelled as a \<^typ>\<open>string\<close>, one \<^typ>\<open>char\<close> per code unit
  (every literal of \<^verbatim>\<open>server.js\<close> fits in Latin-1). \<open>digitChar\<close> is the
  digit table shared by \<^verbatim>\<open>Number.prototype.toString\<close> (decimal) and
  \<^verbatim>\<open>Buffer.toString('hex')\<close> (lower-case hexadecimal).
\<close>

definition hexDigits :: string where
  "hexDigits = ''0123456789abcdef''"

definition digitChar :: "nat \<Rightarrow> char" where
  "digitChar d = hexDigits ! d"

text \<open>\<^verbatim>\<open>n.toString()\<close> for a non-negative integer \<open>n\<close>: its decimal digits.\<close>

fun numberToString :: "nat \<Rightarrow> string" where
  "numberToString n =
     (if n < 10 then [digitChar n]
      else numberToString (n div 10) @ [digitChar (n mod 10)])"

declare numberToString.simps [simp del]

text \<open>\<^verbatim>\<open>Date.now().toString()\<close>: the clock reading is an integer number of milliseconds.\<close>

definition intToString :: "int \<Rightarrow> string" where
  "intToString i =
     (if i < 0 then CHR ''-'' # numberToString (nat (- i)) else numberToString (nat i))"

text \<open>\<^verbatim>\<open>s.slice(-k)\<close>: the last \<open>k\<close> code units, the whole string when it is shorter.\<close>

definition sliceLast :: "nat \<Rightarrow> string \<Rightarrow> string" where
  "sliceLast k s = drop (length s - k) s"

text \<open>\<^verbatim>\<open>s.padStart(n, c)\<close> for a one-character filler.\<close>

definition padStart :: "nat \<Rightarrow> char \<Rightarrow> string \<Rightarrow> string" where
  "padStart n c s = replicate (n - length s) c @ s"

section \<open>Identifier generator\<close>

text \<open>
  \<^verbatim>\<open>generateBookingNumber()\<close> reads the clock and the random number generator. The model
  takes both readings as arguments: \<open>dateNow\<close> is \<^verbatim>\<open>Date.now()\<close> and \<open>rnd\<close> is the
  integer \<^verbatim>\<open>Math.floor(Math.random() * 1000)\<close>, which is below 1000 because
  \<^verbatim>\<open>Math.random()\<close> lies in \<open>[0, 1)\<close>.
\<close>

definition generateBookingNumber :: "int \<Rightarrow> nat \<Rightarrow> string" where
  "generateBookingNumber dateNow rnd =
     (let prefix = ''TB'';
          timestamp = sliceLast 6 (intToString dateNow);
          random = padStart 3 (CHR ''0'') (numberToString rnd)
      in prefix @ timestamp @ random)"

text \<open>
  \<^verbatim>\<open>crypto.randomBytes(n)\<close> draws \<open>n\<close> bytes from the operating system's generator. The
  model reads them from an entropy source \<open>src\<close>, the sequence of bytes the generator
  delivers to this call.
\<close>

definition randomBytes :: "(nat \<Rightarrow> 8 word) \<Rightarrow> nat \<Rightarrow> 8 word list" where
  "randomBytes src n = map src [0..<n]"

definition byteToHex :: "8 word \<Rightarrow> string" where
  "byteToHex b = [digitChar (unat b div 16), digitChar (unat b mod 16)]"

text \<open>\<^verbatim>\<open>buf.toString('hex')\<close>: two lower-case hexadecimal digits per byte.\<close>

definition toStringHex :: "8 word list \<Rightarrow> string" where
  "toStringHex bs = concat (map byteToHex bs)"

definition generateCancellationToken :: "(nat \<Rightarrow> 8 word) \<Rightarrow> string" where
  "generateCancellationToken src = toStringHex (randomBytes src 32)"

subsection \<open>URL-query encoding\<close>

text \<open>
  The handler interpolates the token into the cancellation link as it is
  (\<^verbatim>\<open>`...?token=${cancellationToken}`\<close>). The encoding the link would otherwise need is
  the one of \<^verbatim>\<open>encodeURIComponent\<close>: an unreserved character stands for itself, any
  other code unit becomes the \<open>%XX\<close> escapes of its UTF-8 bytes (modelled for the code
  units up to 255 that a \<^typ>\<open>char\<close> holds).
\<close>

definition uriUnreserved :: "char \<Rightarrow> bool" where
  "uriUnreserved c =
     (let n = (of_char c :: nat) in
        (65 \<le> n \<and> n \<le> 90) \<or> (97 \<le> n \<and> n \<le> 122) \<or> (48 \<le> n \<and> n \<le> 57)
        \<or> c \<in> set ''-_.!~*()'' \<or> n = 39)"

definition percentByte :: "nat \<Rightarrow> string" where
  "percentByte b =
     [CHR ''%'', ''0123456789ABCDEF'' ! (b div 16), ''0123456789ABCDEF'' ! (b mod 16)]"

definition encodeChar :: "char \<Rightarrow> string" where
  "encodeChar c =
     (if uriUnreserved c then [c]
      else if (of_char c :: nat) < 128 then percentByte (of_char c)
      else percentByte (192 + of_char c div 64) @ percentByte (128 + of_char c mod 64))"

definition encodeURIComponent :: "string \<Rightarrow> string" where
  "encodeURIComponent s = concat (map encodeChar s)"

subsection \<open>The structural pattern of a booking number\<close>

text \<open>
  \<open>lastDigits k n\<close> is the string of the \<open>k\<close> least significant decimal digits of \<open>n\<close>,
  most significant first and with leading zeros: the reading of ``the last 6 digits of
  the timestamp'' and of ``a 3-digit zero-padded number'' against which
  \<open>generateBookingNumber\<close> is compared.
\<close>

primrec lastDigits :: "nat \<Rightarrow> nat \<Rightarrow> string" where
  "lastDigits 0 n = []"
| "lastDigits (Suc k) n = lastDigits k (n div 10) @ [digitChar (n mod 10)]"

definition decimalDigits :: string where
  "decimalDigits = ''0123456789''"

section \<open>Values, objects and the environment of a request\<close>

text \<open>
  The handlers receive JSON values (the request body) and query parameters. They compare
  them with string literals, convert them to strings inside templates and pass one to
  \<^verbatim>\<open>new Date\<close>; nothing else is done with them. A value is therefore \<open>undefined\<close>, a
  string, or some other value \<open>JOther a\<close> (null, a boolean, a number, an array, an
  object), which is never equal to a string.
\<close>

datatype 'a jsval = JUndefined | JStr string | JOther 'a

text \<open>
  An object is the finite map of its own properties; a property that is missing reads as
  \<open>undefined\<close>. The body of a request is the object that \<^verbatim>\<open>express.json()\<close> leaves in
  \<^verbatim>\<open>req.body\<close>.
\<close>

type_synonym 'a jsobject = "string \<Rightarrow> 'a jsval option"

definition getProp :: "'a jsobject \<Rightarrow> string \<Rightarrow> 'a jsval" where
  "getProp obj p = (case obj p of None \<Rightarrow> JUndefined | Some v \<Rightarrow> v)"

text \<open>A thrown error, or the reason of a rejected promise, with its \<^verbatim>\<open>message\<close>.\<close>

datatype jserror = JsError (message: string)

record 'a mail =
  mail_from :: "'a jsval"
  mail_to :: "'a jsval"
  subject :: string
  html :: string

text \<open>
  Everything a handler reads from outside during one request: the process environment,
  the clock (\<^verbatim>\<open>Date.now()\<close> and \<^verbatim>\<open>new Date().toISOString()\<close>), the random number
  generators, the runtime's conversions of values that are not strings, the locale
  formatting of dates, and the mail transport (\<^verbatim>\<open>transporter.sendMail\<close>, whose promise
  is fulfilled, \<open>None\<close>, or rejected with an error).
\<close>

record 'a env =
  EMAIL_USER :: "string option"
  PORT :: "string option"
  NODE_ENV :: "string option"
  BASE_URL :: "string option"
  dateNow :: int
  randomThousand :: nat
  entropy :: "nat \<Rightarrow> 8 word"
  toISOString :: string
  stringOfOther :: "'a \<Rightarrow> jserror + string"
  localeOfString :: "string \<Rightarrow> string"
  localeOfOther :: "'a \<Rightarrow> jserror + string"
  sendMail :: "'a mail \<Rightarrow> jserror option"

text \<open>\<^verbatim>\<open>process.env.NAME\<close> as a value: \<open>undefined\<close> when the variable is not set.\<close>

definition envValue :: "string option \<Rightarrow> 'a jsval" where
  "envValue x = (case x of None \<Rightarrow> JUndefined | Some s \<Rightarrow> JStr s)"

text \<open>\<^verbatim>\<open>const port = process.env.PORT || 3001\<close>, as it prints in a template.\<close>

definition port :: "'a env \<Rightarrow> string" where
  "port env = (case PORT env of None \<Rightarrow> ''3001'' | Some p \<Rightarrow> if p = [] then ''3001'' else p)"

text \<open>
  The conversion of a value to a string inside a template literal. It can throw on an
  object (one whose own \<^verbatim>\<open>toString\<close> is not callable, for instance).
\<close>

fun ToString :: "'a env \<Rightarrow> 'a jsval \<Rightarrow> jserror + string" where
  "ToString env JUndefined = Inr ''undefined''"
| "ToString env (JStr s) = Inr s"
| "ToString env (JOther a) = stringOfOther env a"

text \<open>
  A template literal is the list of its pieces, literal text and substitutions
  \<^verbatim>\<open>${...}\<close>, evaluated from left to right; the first substitution that throws aborts it.
\<close>

datatype 'a piece = Lit string | Sub "'a jsval"

fun template :: "'a env \<Rightarrow> 'a piece list \<Rightarrow> jserror + string" where
  "template env [] = Inr []"
| "template env (Lit s # ps) =
     (case template env ps of Inl error \<Rightarrow> Inl error | Inr r \<Rightarrow> Inr (s @ r))"
| "template env (Sub v # ps) =
     (case ToString env v of
        Inl error \<Rightarrow> Inl error
      | Inr s \<Rightarrow> (case template env ps of Inl error \<Rightarrow> Inl error | Inr r \<Rightarrow> Inr (s @ r)))"

text \<open>
  \<^verbatim>\<open>new Date(v).toLocaleString('en-US', { dateStyle: 'full', timeStyle: 'short' })\<close>.
  A string is parsed, and one that is no date prints as \<^verbatim>\<open>Invalid Date\<close>, as
  \<open>undefined\<close> does; converting an object to a primitive can throw.
\<close>

definition toLocaleString :: "'a env \<Rightarrow> 'a jsval \<Rightarrow> jserror + string" where
  "toLocaleString env v =
     (case v of
        JUndefined \<Rightarrow> Inr ''Invalid Date''
      | JStr s \<Rightarrow> Inr (localeOfString env s)
      | JOther a \<Rightarrow> localeOfOther env a)"

section \<open>The booking store and the responses\<close>

text \<open>
  \<^verbatim>\<open>const activeBookings = new Map()\<close>: its keys are cancellation tokens, strings. The
  state of the server is the store together with the mails handed to the transport so
  far.
\<close>

record 'a state =
  activeBookings :: "string \<Rightarrow> 'a jsobject option"
  outbox :: "'a mail list"

text \<open>
  A key that is not a string (an absent query parameter, an array or object built by the
  query parser) is the same as no key of the store.
\<close>

definition bookings_has :: "'a state \<Rightarrow> 'a jsval \<Rightarrow> bool" where
  "bookings_has st token =
     (case token of JStr t \<Rightarrow> activeBookings st t \<noteq> None | _ \<Rightarrow> False)"

definition bookings_get :: "'a state \<Rightarrow> 'a jsval \<Rightarrow> 'a jsobject option" where
  "bookings_get st token =
     (case token of JStr t \<Rightarrow> activeBookings st t | _ \<Rightarrow> None)"

definition bookings_set :: "'a state \<Rightarrow> string \<Rightarrow> 'a jsobject \<Rightarrow> 'a state" where
  "bookings_set st token record = st\<lparr>activeBookings := (activeBookings st)(token \<mapsto> record)\<rparr>"

definition bookings_delete :: "'a state \<Rightarrow> 'a jsval \<Rightarrow> 'a state" where
  "bookings_delete st token =
     (case token of
        JStr t \<Rightarrow> st\<lparr>activeBookings := (activeBookings st)(t := None)\<rparr>
      | _ \<Rightarrow> st)"

text \<open>\<^verbatim>\<open>transporter.sendMail(m)\<close> is called: the mail is handed to the transport.\<close>

definition dispatch :: "'a state \<Rightarrow> 'a mail list \<Rightarrow> 'a state" where
  "dispatch st ms = st\<lparr>outbox := outbox st @ ms\<rparr>"

datatype jsonval = JsonBool bool | JsonString string

datatype resbody = Json "(string \<times> jsonval) list" | Send string

record response =
  status :: nat
  body :: resbody

section \<open>The texts of the two store-backed servers\<close>

text \<open>
  \<^verbatim>\<open>server.js\<close> holds three servers. Two of them keep the booking store and differ
  only in their texts and in the base address of the cancellation link: the \<open>German\<close>
  one (lines 1 to 268) and the \<open>English\<close> one (lines 269 to 524). The third (lines 525
  to 666) has no store and no cancellation; it is modelled separately below.
\<close>

datatype variant = German | English

text \<open>The ride type that is formatted as a date, and the phrase shown otherwise.\<close>

fun scheduledRide :: "variant \<Rightarrow> string" where
  "scheduledRide German = ''Geplante Fahrt''"
| "scheduledRide English = ''Scheduled Ride''"

fun immediately :: "variant \<Rightarrow> string" where
  "immediately German = ''Sofort''"
| "immediately English = ''As soon as possible''"

text \<open>
  The base address of the cancellation link: \<^verbatim>\<open>baseUrl\<close> in the German server
  (\<^verbatim>\<open>process.env.BASE_URL\<close> in production, which prints as \<^verbatim>\<open>undefined\<close> when it is
  not set), the local address in the English one.
\<close>

fun baseUrl :: "variant \<Rightarrow> 'a env \<Rightarrow> string" where
  "baseUrl German env =
     (if NODE_ENV env = Some ''production''
      then (case BASE_URL env of None \<Rightarrow> ''undefined'' | Some u \<Rightarrow> u)
      else ''http://localhost:'' @ port env)"
| "baseUrl English env = ''http://localhost:'' @ port env"

fun customerSubject :: "variant \<Rightarrow> string \<Rightarrow> string" where
  \<open>customerSubject German bookingNumber = ''TaxiBoy - Buchung Best'' @ [CHR 0xE4] @ ''tigt #'' @ bookingNumber\<close>
| \<open>customerSubject English bookingNumber = ''TaxiBoy - Booking Confirmation #'' @ bookingNumber\<close>

fun adminSubject :: "variant \<Rightarrow> string \<Rightarrow> string" where
  \<open>adminSubject German bookingNumber = ''[ADMIN] Neue Buchung erhalten #'' @ bookingNumber\<close>
| \<open>adminSubject English bookingNumber = ''[ADMIN] New Booking #'' @ bookingNumber\<close>

text \<open>The confirmation for the customer, with the cancellation link.\<close>

primrec customerHtml :: "variant \<Rightarrow> string \<Rightarrow> 'a jsobject \<Rightarrow> string \<Rightarrow> string \<Rightarrow> 'a piece list" where
  \<open>customerHtml German bookingNumber bookingData formattedDateTime cancellationUrl =
    [Lit ''\<newline>'',
     Lit ''        <h1>Ihre Fahrt wurde gebucht!</h1>\<newline>'',
     Lit ''        <div style="background-color: #f3f4f6; padding: 15px; margin: 20px 0; border-radius: 5px;">\<newline>'',
     Lit ''          <h2 style="color: #1f2937; margin: 0;">Buchungsnummer: '',
     Sub (JStr bookingNumber),
     Lit ''</h2>\<newline>'',
     Lit ''        </div>\<newline>'',
     Lit (''        <p>Vielen Dank f'' @ [CHR 0xFC] @ ''r Ihre Wahl von TaxiBoy. Hier sind Ihre Buchungsdetails:</p>\<newline>''),
     Lit ''        <ul style="list-style: none; padding: 0;">\<newline>'',
     Lit ''          <li><strong>Buchungsart:</strong> '',
     Sub (getProp bookingData ''type''),
     Lit ''</li>\<newline>'',
     Lit ''          <li><strong>Abfahrtort:</strong> '',
     Sub (getProp bookingData ''pickupLocation''),
     Lit ''</li>\<newline>'',
     Lit ''          <li><strong>Ziel:</strong> '',
     Sub (getProp bookingData ''destination''),
     Lit ''</li>\<newline>'',
     Lit ''          <li><strong>Datum/Zeit:</strong> '',
     Sub (JStr formattedDateTime),
     Lit ''</li>\<newline>'',
     Lit ''          <li><strong>Fahrzeugtyp:</strong> '',
     Sub (getProp bookingData ''vehicleType''),
     Lit ''</li>\<newline>'',
     Lit ''          <li><strong>Name:</strong> '',
     Sub (getProp bookingData ''name''),
     Lit ''</li>\<newline>'',
     Lit ''          <li><strong>Telefon:</strong> '',
     Sub (getProp bookingData ''phone''),
     Lit ''</li>\<newline>'',
     Lit ''          <li><strong>E-Mail:</strong> '',
     Sub (getProp bookingData ''email''),
     Lit ''</li>\<newline>'',
     Lit ''        </ul>\<newline>'',
     Lit (''        <p>Bitte bewahren Sie Ihre Buchungsnummer f'' @ [CHR 0xFC] @ ''r zuk'' @ [CHR 0xFC] @ ''nftige Referenzen auf.</p>\<newline>''),
     Lit ''        <div style="margin: 20px 0; padding: 15px; background-color: #fee2e2; border-radius: 5px;">\<newline>'',
     Lit (''          <p style="margin: 0; color: #991b1b;">M'' @ [CHR 0xF6] @ ''chten Sie Ihre Fahrt stornieren?</p>\<newline>''),
     Lit ''          <p style="margin: 5px 0;">Klicken Sie auf den untenstehenden Link, um Ihre Buchung zu stornieren:</p>\<newline>'',
     Lit ''          <a href="'',
     Sub (JStr cancellationUrl),
     Lit ''" style="display: inline-block; padding: 10px 20px; background-color: #dc2626; color: white; text-decoration: none; border-radius: 5px;">Buchung Stornieren</a>\<newline>'',
     Lit ''        </div>\<newline>'',
     Lit (''        <p style="color: #6b7280; font-size: 0.875rem;">Wenn Sie weitere '' @ [CHR 0xC4] @ ''nderungen an Ihrer Buchung ben'' @ [CHR 0xF6] @ ''tigen, kontaktieren Sie bitte unser Support-Team.</p>\<newline>''),
     Lit ''      '']\<close>
| \<open>customerHtml English bookingNumber bookingData formattedDateTime cancellationUrl =
    [Lit ''\<newline>'',
     Lit ''        <h1>Your Ride Has Been Booked!</h1>\<newline>'',
     Lit ''        <div style="background-color: #f3f4f6; padding: 15px; margin: 20px 0; border-radius: 5px;">\<newline>'',
     Lit ''          <h2 style="color: #1f2937; margin: 0;">Booking Number: '',
     Sub (JStr bookingNumber),
     Lit ''</h2>\<newline>'',
     Lit ''        </div>\<newline>'',
     Lit ''        <p>Thank you for choosing TaxiBoy. Here are your booking details:</p>\<newline>'',
     Lit ''        <ul style="list-style: none; padding: 0;">\<newline>'',
     Lit ''          <li><strong>Booking Type:</strong> '',
     Sub (getProp bookingData ''type''),
     Lit ''</li>\<newline>'',
     Lit ''          <li><strong>Pickup Location:</strong> '',
     Sub (getProp bookingData ''pickupLocation''),
     Lit ''</li>\<newline>'',
     Lit ''          <li><strong>Destination:</strong> '',
     Sub (getProp bookingData ''destination''),
     Lit ''</li>\<newline>'',
     Lit ''          <li><strong>Date/Time:</strong> '',
     Sub (JStr formattedDateTime),
     Lit ''</li>\<newline>'',
     Lit ''          <li><strong>Vehicle Type:</strong> '',
     Sub (getProp bookingData ''vehicleType''),
     Lit ''</li>\<newline>'',
     Lit ''          <li><strong>Name:</strong> '',
     Sub (getProp bookingData ''name''),
     Lit ''</li>\<newline>'',
     Lit ''          <li><strong>Phone:</strong> '',
     Sub (getProp bookingData ''phone''),
     Lit ''</li>\<newline>'',
     Lit ''          <li><strong>Email:</strong> '',
     Sub (getProp bookingData ''email''),
     Lit ''</li>\<newline>'',
     Lit ''        </ul>\<newline>'',
     Lit ''        <p>Please keep your booking number for future reference.</p>\<newline>'',
     Lit ''        <div style="margin: 20px 0; padding: 15px; background-color: #fee2e2; border-radius: 5px;">\<newline>'',
     Lit ''          <p style="margin: 0; color: #991b1b;">Need to cancel your ride?</p>\<newline>'',
     Lit ''          <p style="margin: 5px 0;">Click the link below to cancel your booking:</p>\<newline>'',
     Lit ''          <a href="'',
     Sub (JStr cancellationUrl),
     Lit ''" style="display: inline-block; padding: 10px 20px; background-color: #dc2626; color: white; text-decoration: none; border-radius: 5px;">Cancel My Ride</a>\<newline>'',
     Lit ''        </div>\<newline>'',
     Lit ''        <p style="color: #6b7280; font-size: 0.875rem;">If you need any other modifications to your booking, please contact our support team.</p>\<newline>'',
     Lit ''      '']\<close>

declare customerHtml.simps [simp del]

text \<open>The notification for the administrator.\<close>

primrec adminHtml :: "variant \<Rightarrow> string \<Rightarrow> 'a jsobject \<Rightarrow> string \<Rightarrow> 'a piece list" where
  \<open>adminHtml German bookingNumber bookingData formattedDateTime =
    [Lit ''\<newline>'',
     Lit ''        <h1>Neue Buchung erhalten</h1>\<newline>'',
     Lit ''        <div style="background-color: #f3f4f6; padding: 15px; margin: 20px 0; border-radius: 5px;">\<newline>'',
     Lit ''          <h2 style="color: #1f2937; margin: 0;">Buchungsnummer: '',
     Sub (JStr bookingNumber),
     Lit ''</h2>\<newline>'',
     Lit ''        </div>\<newline>'',
     Lit ''        <p>Eine neuer Buchung wurde erhalten. Hier sind die Details der Buchung:</p>\<newline>'',
     Lit ''        <ul style="list-style: none; padding: 0;">\<newline>'',
     Lit ''          <li><strong>Buchungstyp:</strong> '',
     Sub (getProp bookingData ''type''),
     Lit ''</li>\<newline>'',
     Lit ''          <li><strong>Abfahrtort:</strong> '',
     Sub (getProp bookingData ''pickupLocation''),
     Lit ''</li>\<newline>'',
     Lit ''          <li><strong>Zielort:</strong> '',
     Sub (getProp bookingData ''destination''),
     Lit ''</li>\<newline>'',
     Lit ''          <li><strong>Datum/Uhrzeit:</strong> '',
     Sub (JStr formattedDateTime),
     Lit ''</li>\<newline>'',
     Lit ''          <li><strong>Fahrzeug Type:</strong> '',
     Sub (getProp bookingData ''vehicleType''),
     Lit ''</li>\<newline>'',
     Lit ''          <hr>\<newline>'',
     Lit ''          <li><strong>Kunden Name:</strong> '',
     Sub (getProp bookingData ''name''),
     Lit ''</li>\<newline>'',
     Lit ''          <li><strong>Kunden Phone:</strong> '',
     Sub (getProp bookingData ''phone''),
     Lit ''</li>\<newline>'',
     Lit ''          <li><strong>Kunden Email:</strong> '',
     Sub (getProp bookingData ''email''),
     Lit ''</li>\<newline>'',
     Lit ''        </ul>\<newline>'',
     Lit ''        <p>Bitte aktualisieren Sie das Planungssystem entsprechend.</p>\<newline>'',
     Lit ''      '']\<close>
| \<open>adminHtml English bookingNumber bookingData formattedDateTime =
    [Lit ''\<newline>'',
     Lit ''        <h1>New Booking Received</h1>\<newline>'',
     Lit ''        <div style="background-color: #f3f4f6; padding: 15px; margin: 20px 0; border-radius: 5px;">\<newline>'',
     Lit ''          <h2 style="color: #1f2937; margin: 0;">Booking Number: '',
     Sub (JStr bookingNumber),
     Lit ''</h2>\<newline>'',
     Lit ''        </div>\<newline>'',
     Lit ''        <p>A new booking has been received. Details below:</p>\<newline>'',
     Lit ''        <ul style="list-style: none; padding: 0;">\<newline>'',
     Lit ''          <li><strong>Booking Type:</strong> '',
     Sub (getProp bookingData ''type''),
     Lit ''</li>\<newline>'',
     Lit ''          <li><strong>Pickup Location:</strong> '',
     Sub (getProp bookingData ''pickupLocation''),
     Lit ''</li>\<newline>'',
     Lit ''          <li><strong>Destination:</strong> '',
     Sub (getProp bookingData ''destination''),
     Lit ''</li>\<newline>'',
     Lit ''          <li><strong>Date/Time:</strong> '',
     Sub (JStr formattedDateTime),
     Lit ''</li>\<newline>'',
     Lit ''          <li><strong>Vehicle Type:</strong> '',
     Sub (getProp bookingData ''vehicleType''),
     Lit ''</li>\<newline>'',
     Lit ''          <hr>\<newline>'',
     Lit ''          <li><strong>Customer Name:</strong> '',
     Sub (getProp bookingData ''name''),
     Lit ''</li>\<newline>'',
     Lit ''          <li><strong>Customer Phone:</strong> '',
     Sub (getProp bookingData ''phone''),
     Lit ''</li>\<newline>'',
     Lit ''          <li><strong>Customer Email:</strong> '',
     Sub (getProp bookingData ''email''),
     Lit ''</li>\<newline>'',
     Lit ''        </ul>\<newline>'',
     Lit ''        <p>Please assign a driver to this booking.</p>\<newline>'',
     Lit ''      '']\<close>

declare adminHtml.simps [simp del]

text \<open>The cancellation mails read the stored record \<open>booking\<close>.\<close>

primrec customerCancelSubject :: "variant \<Rightarrow> 'a jsobject \<Rightarrow> 'a piece list" where
  \<open>customerCancelSubject German booking =
    [Lit (''TaxiBoy - Buchungsstornierung Best'' @ [CHR 0xE4] @ ''tigung #''),
     Sub (getProp booking ''bookingNumber'')]\<close>
| \<open>customerCancelSubject English booking =
    [Lit ''TaxiBoy - Booking Cancellation Confirmation #'',
     Sub (getProp booking ''bookingNumber'')]\<close>

declare customerCancelSubject.simps [simp del]

text \<open>The cancellation confirmation for the customer.\<close>

primrec customerCancelHtml :: "variant \<Rightarrow> 'a jsobject \<Rightarrow> 'a piece list" where
  \<open>customerCancelHtml German booking =
    [Lit ''\<newline>'',
     Lit ''        <h1>Ihre Fahrt wurde storniert</h1>\<newline>'',
     Lit ''        <div style="background-color: #fee2e2; padding: 15px; margin: 20px 0; border-radius: 5px;">\<newline>'',
     Lit ''          <h2 style="color: #991b1b; margin: 0;">Buchung #'',
     Sub (getProp booking ''bookingNumber''),
     Lit '' wurde storniert</h2>\<newline>'',
     Lit ''        </div>\<newline>'',
     Lit ''        <p>Ihre Buchung wurde erfolgreich storniert. Hier sind die Details der stornierten Buchung:</p>\<newline>'',
     Lit ''        <ul style="list-style: none; padding: 0;">\<newline>'',
     Lit ''          <li><strong>Buchungsnummer:</strong> '',
     Sub (getProp booking ''bookingNumber''),
     Lit ''</li>\<newline>'',
     Lit ''          <li><strong>Name:</strong> '',
     Sub (getProp booking ''name''),
     Lit ''</li>\<newline>'',
     Lit ''          <li><strong>Abfahrtort:</strong> '',
     Sub (getProp booking ''pickupLocation''),
     Lit ''</li>\<newline>'',
     Lit ''          <li><strong>Zielort:</strong> '',
     Sub (getProp booking ''destination''),
     Lit ''</li>\<newline>'',
     Lit ''        </ul>\<newline>'',
     Lit (''        <p>Wenn Sie eine neue Fahrt buchen m'' @ [CHR 0xF6] @ ''chten, besuchen Sie bitte unsere Website.</p>\<newline>''),
     Lit (''        <p>Vielen Dank, dass Sie sich f'' @ [CHR 0xFC] @ ''r TaxiBoy entschieden haben!</p>\<newline>''),
     Lit ''      '']\<close>
| \<open>customerCancelHtml English booking =
    [Lit ''\<newline>'',
     Lit ''        <h1>Your Ride Has Been Cancelled</h1>\<newline>'',
     Lit ''        <div style="background-color: #fee2e2; padding: 15px; margin: 20px 0; border-radius: 5px;">\<newline>'',
     Lit ''          <h2 style="color: #991b1b; margin: 0;">Booking #'',
     Sub (getProp booking ''bookingNumber''),
     Lit '' has been cancelled</h2>\<newline>'',
     Lit ''        </div>\<newline>'',
     Lit ''        <p>Your booking has been successfully cancelled. Here are the details of the cancelled booking:</p>\<newline>'',
     Lit ''        <ul style="list-style: none; padding: 0;">\<newline>'',
     Lit ''          <li><strong>Booking Number:</strong> '',
     Sub (getProp booking ''bookingNumber''),
     Lit ''</li>\<newline>'',
     Lit ''          <li><strong>Name:</strong> '',
     Sub (getProp booking ''name''),
     Lit ''</li>\<newline>'',
     Lit ''          <li><strong>Pickup Location:</strong> '',
     Sub (getProp booking ''pickupLocation''),
     Lit ''</li>\<newline>'',
     Lit ''          <li><strong>Destination:</strong> '',
     Sub (getProp booking ''destination''),
     Lit ''</li>\<newline>'',
     Lit ''        </ul>\<newline>'',
     Lit ''        <p>If you need to book another ride, please visit our website.</p>\<newline>'',
     Lit ''        <p>Thank you for choosing TaxiBoy!</p>\<newline>'',
     Lit ''      '']\<close>

declare customerCancelHtml.simps [simp del]

text \<open>The subject of the cancellation notice for the administrator.\<close>

primrec adminCancelSubject :: "variant \<Rightarrow> 'a jsobject \<Rightarrow> 'a piece list" where
  \<open>adminCancelSubject German booking =
    [Lit ''[ADMIN] Buchung Storniert #'',
     Sub (getProp booking ''bookingNumber'')]\<close>
| \<open>adminCancelSubject English booking =
    [Lit ''[ADMIN] Booking Cancelled #'',
     Sub (getProp booking ''bookingNumber'')]\<close>

declare adminCancelSubject.simps [simp del]

text \<open>The cancellation notice for the administrator.\<close>

primrec adminCancelHtml :: "variant \<Rightarrow> 'a jsobject \<Rightarrow> 'a piece list" where
  \<open>adminCancelHtml German booking =
    [Lit ''\<newline>'',
     Lit ''        <h1>Buchung storniert</h1>\<newline>'',
     Lit ''        <div style="background-color: #fee2e2; padding: 15px; margin: 20px 0; border-radius: 5px;">\<newline>'',
     Lit ''          <h2 style="color: #991b1b; margin: 0;">Buchung #'',
     Sub (getProp booking ''bookingNumber''),
     Lit '' wurde storniert</h2>\<newline>'',
     Lit ''        </div>\<newline>'',
     Lit ''        <p>Eine Kunde hat seine Buchung storniert. Details unten:</p>\<newline>'',
     Lit ''        <ul style="list-style: none; padding: 0;">\<newline>'',
     Lit ''          <li><strong>Buchungsnummer:</strong> '',
     Sub (getProp booking ''bookingNumber''),
     Lit ''</li>\<newline>'',
     Lit ''          <li><strong>Kundenname:</strong> '',
     Sub (getProp booking ''name''),
     Lit ''</li>\<newline>'',
     Lit ''          <li><strong>Kunden-E-Mail:</strong> '',
     Sub (getProp booking ''email''),
     Lit ''</li>\<newline>'',
     Lit ''          <li><strong>Kunden-Telefon:</strong> '',
     Sub (getProp booking ''phone''),
     Lit ''</li>\<newline>'',
     Lit ''          <li><strong>Abfahrtort:</strong> '',
     Sub (getProp booking ''pickupLocation''),
     Lit ''</li>\<newline>'',
     Lit ''          <li><strong>Zielort:</strong> '',
     Sub (getProp booking ''destination''),
     Lit ''</li>\<newline>'',
     Lit ''          <li><strong>Fahrzeugtyp:</strong> '',
     Sub (getProp booking ''vehicleType''),
     Lit ''</li>\<newline>'',
     Lit ''        </ul>\<newline>'',
     Lit ''        <p>Bitte aktualisieren Sie das Planungssystem entsprechend.</p>\<newline>'',
     Lit ''      '']\<close>
| \<open>adminCancelHtml English booking =
    [Lit ''\<newline>'',
     Lit ''        <h1>Booking Cancellation Notice</h1>\<newline>'',
     Lit ''        <div style="background-color: #fee2e2; padding: 15px; margin: 20px 0; border-radius: 5px;">\<newline>'',
     Lit ''          <h2 style="color: #991b1b; margin: 0;">Booking #'',
     Sub (getProp booking ''bookingNumber''),
     Lit '' has been cancelled</h2>\<newline>'',
     Lit ''        </div>\<newline>'',
     Lit ''        <p>A customer has cancelled their booking. Details below:</p>\<newline>'',
     Lit ''        <ul style="list-style: none; padding: 0;">\<newline>'',
     Lit ''          <li><strong>Booking Number:</strong> '',
     Sub (getProp booking ''bookingNumber''),
     Lit ''</li>\<newline>'',
     Lit ''          <li><strong>Customer Name:</strong> '',
     Sub (getProp booking ''name''),
     Lit ''</li>\<newline>'',
     Lit ''          <li><strong>Customer Email:</strong> '',
     Sub (getProp booking ''email''),
     Lit ''</li>\<newline>'',
     Lit ''          <li><strong>Customer Phone:</strong> '',
     Sub (getProp booking ''phone''),
     Lit ''</li>\<newline>'',
     Lit ''          <li><strong>Pickup Location:</strong> '',
     Sub (getProp booking ''pickupLocation''),
     Lit ''</li>\<newline>'',
     Lit ''          <li><strong>Destination:</strong> '',
     Sub (getProp booking ''destination''),
     Lit ''</li>\<newline>'',
     Lit ''          <li><strong>Vehicle Type:</strong> '',
     Sub (getProp booking ''vehicleType''),
     Lit ''</li>\<newline>'',
     Lit ''        </ul>\<newline>'',
     Lit ''        <p>Please update the scheduling system accordingly.</p>\<newline>'',
     Lit ''      '']\<close>

declare adminCancelHtml.simps [simp del]

text \<open>The page sent after a cancellation.\<close>

primrec successPage :: "variant \<Rightarrow> 'a jsobject \<Rightarrow> 'a piece list" where
  \<open>successPage German booking =
    [Lit ''\<newline>'',
     Lit ''      <html>\<newline>'',
     Lit ''        <head>\<newline>'',
     Lit ''          <title>Buchung storniert</title>\<newline>'',
     Lit ''          <style>\<newline>'',
     Lit ''            body {\<newline>'',
     Lit ''              font-family: Arial, sans-serif;\<newline>'',
     Lit ''              max-width: 600px;\<newline>'',
     Lit ''              margin: 40px auto;\<newline>'',
     Lit ''              padding: 20px;\<newline>'',
     Lit ''              text-align: center;\<newline>'',
     Lit ''            }\<newline>'',
     Lit ''            .success-box {\<newline>'',
     Lit ''              background-color: #fee2e2;\<newline>'',
     Lit ''              border-radius: 8px;\<newline>'',
     Lit ''              padding: 20px;\<newline>'',
     Lit ''              margin: 20px 0;\<newline>'',
     Lit ''            }\<newline>'',
     Lit ''            .booking-number {\<newline>'',
     Lit ''              font-size: 1.2em;\<newline>'',
     Lit ''              font-weight: bold;\<newline>'',
     Lit ''              color: #991b1b;\<newline>'',
     Lit ''            }\<newline>'',
     Lit ''          </style>\<newline>'',
     Lit ''        </head>\<newline>'',
     Lit ''        <body>\<newline>'',
     Lit ''          <div class="success-box">\<newline>'',
     Lit ''            <h1>Buchung erfolgreich storniert</h1>\<newline>'',
     Lit ''            <p class="booking-number">Buchungsnummer #'',
     Sub (getProp booking ''bookingNumber''),
     Lit ''</p>\<newline>'',
     Lit ''          </div>\<newline>'',
     Lit (''          <p>Ihre Buchung wurde erfolgreich storniert und Sie erhalten eine Best'' @ [CHR 0xE4] @ ''tigungs-E-Mail kurzzeitig.</p>\<newline>''),
     Lit (''          <p>Vielen Dank f'' @ [CHR 0xFC] @ ''r die Nutzung von TaxiBoy!</p>\<newline>''),
     Lit ''        </body>\<newline>'',
     Lit ''      </html>\<newline>'',
     Lit ''    '']\<close>
| \<open>successPage English booking =
    [Lit ''\<newline>'',
     Lit ''      <html>\<newline>'',
     Lit ''        <head>\<newline>'',
     Lit ''          <title>Booking Cancelled</title>\<newline>'',
     Lit ''          <style>\<newline>'',
     Lit ''            body {\<newline>'',
     Lit ''              font-family: Arial, sans-serif;\<newline>'',
     Lit ''              max-width: 600px;\<newline>'',
     Lit ''              margin: 40px auto;\<newline>'',
     Lit ''              padding: 20px;\<newline>'',
     Lit ''              text-align: center;\<newline>'',
     Lit ''            }\<newline>'',
     Lit ''            .success-box {\<newline>'',
     Lit ''              background-color: #fee2e2;\<newline>'',
     Lit ''              border-radius: 8px;\<newline>'',
     Lit ''              padding: 20px;\<newline>'',
     Lit ''              margin: 20px 0;\<newline>'',
     Lit ''            }\<newline>'',
     Lit ''            .booking-number {\<newline>'',
     Lit ''              font-size: 1.2em;\<newline>'',
     Lit ''              font-weight: bold;\<newline>'',
     Lit ''              color: #991b1b;\<newline>'',
     Lit ''            }\<newline>'',
     Lit ''          </style>\<newline>'',
     Lit ''        </head>\<newline>'',
     Lit ''        <body>\<newline>'',
     Lit ''          <div class="success-box">\<newline>'',
     Lit ''            <h1>Booking Cancelled Successfully</h1>\<newline>'',
     Lit ''            <p class="booking-number">Booking #'',
     Sub (getProp booking ''bookingNumber''),
     Lit ''</p>\<newline>'',
     Lit ''          </div>\<newline>'',
     Lit ''          <p>Your booking has been cancelled and you will receive a confirmation email shortly.</p>\<newline>'',
     Lit ''          <p>Thank you for using TaxiBoy!</p>\<newline>'',
     Lit ''        </body>\<newline>'',
     Lit ''      </html>\<newline>'',
     Lit ''    '']\<close>

declare successPage.simps [simp del]

text \<open>The bodies of the responses.\<close>

fun bookingConfirmedMessage :: "variant \<Rightarrow> string" where
  \<open>bookingConfirmedMessage German = ''Buchung erfolgreich! '' @ [CHR 0xDC] @ ''berpr'' @ [CHR 0xFC] @ ''fen Sie Ihre E-Mail (Spam-Ordner) f'' @ [CHR 0xFC] @ ''r weitere Informationen.''\<close>
| \<open>bookingConfirmedMessage English = ''Booking confirmed! Check your email (spam folder) for details.''\<close>

fun bookingFailedMessage :: "variant \<Rightarrow> string" where
  \<open>bookingFailedMessage German = ''Fehler beim Buchen. Fehler beim Verarbeiten der Buchung. Bitte versuchen Sie es erneut.''\<close>
| \<open>bookingFailedMessage English = ''Failed to process booking. Please try again.''\<close>

fun notFoundMessage :: "variant \<Rightarrow> string" where
  \<open>notFoundMessage German = ''Buchung nicht gefunden oder bereits storniert.''\<close>
| \<open>notFoundMessage English = ''Booking not found or already cancelled.''\<close>

fun cancelFailedMessage :: "variant \<Rightarrow> string" where
  \<open>cancelFailedMessage German = ''Buchung konnte nicht storniert werden. Bitte versuchen Sie es erneut oder kontaktieren Sie den Support''\<close>
| \<open>cancelFailedMessage English = ''Failed to cancel booking. Please try again or contact support.''\<close>

section \<open>The texts of the server without a store\<close>

definition adminHtml3 ::
  "'a jsval \<Rightarrow> 'a jsval \<Rightarrow> 'a jsval \<Rightarrow> 'a jsval \<Rightarrow> 'a jsval \<Rightarrow> 'a jsval \<Rightarrow> 'a piece list" where
  \<open>adminHtml3 pickupLocation destination dateTime phone email type =
    [Lit ''\<newline>'',
     Lit ''      <h2>New booking received!</h2>\<newline>'',
     Lit ''      <p><strong>Ride Type:</strong> '',
     Sub type,
     Lit ''</p>\<newline>'',
     Lit ''      <p><strong>Customer Details:</strong></p>\<newline>'',
     Lit ''      <ul>\<newline>'',
     Lit ''        <li>Email: '',
     Sub email,
     Lit ''</li>\<newline>'',
     Lit ''        <li>Phone: '',
     Sub phone,
     Lit ''</li>\<newline>'',
     Lit ''      </ul>\<newline>'',
     Lit ''      <p><strong>Pickup Location:</strong> '',
     Sub pickupLocation,
     Lit ''</p>\<newline>'',
     Lit ''      <p><strong>Destination:</strong> '',
     Sub destination,
     Lit ''</p>\<newline>'',
     Lit ''      <p><strong>Date/Time:</strong> '',
     Sub dateTime,
     Lit ''</p>\<newline>'',
     Lit ''    '']\<close>

definition customerHtml3 ::
  "'a jsval \<Rightarrow> 'a jsval \<Rightarrow> 'a jsval \<Rightarrow> 'a jsval \<Rightarrow> 'a jsval \<Rightarrow> 'a jsval \<Rightarrow> 'a piece list" where
  \<open>customerHtml3 pickupLocation destination dateTime phone email type =
    [Lit ''\<newline>'',
     Lit ''      <h2>Thank you for booking with TaxiBoy!</h2>\<newline>'',
     Lit ''      <p>Your booking details:</p>\<newline>'',
     Lit ''      <ul>\<newline>'',
     Lit ''        <li><strong>Ride Type:</strong> '',
     Sub type,
     Lit ''</li>\<newline>'',
     Lit ''        <li><strong>Pickup Location:</strong> '',
     Sub pickupLocation,
     Lit ''</li>\<newline>'',
     Lit ''        <li><strong>Destination:</strong> '',
     Sub destination,
     Lit ''</li>\<newline>'',
     Lit ''        <li><strong>Date/Time:</strong> '',
     Sub dateTime,
     Lit ''</li>\<newline>'',
     Lit ''      </ul>\<newline>'',
     Lit (''      <p>We'' @ [CHR 0x27] @ ''ll be in touch shortly to confirm your ride.</p>\<newline>''),
     Lit ''      <p>If you need to modify your booking, please contact us.</p>\<newline>'',
     Lit ''      <br>\<newline>'',
     Lit ''      <p>Best regards,<br>TaxiBoy Team</p>\<newline>'',
     Lit ''    '']\<close>

section \<open>The booking handler\<close>

text \<open>
  \<^verbatim>\<open>formattedDateTime\<close> of \<^verbatim>\<open>POST /api/book-ride\<close>: the strict comparisons
  \<^verbatim>\<open>===\<close> and \<^verbatim>\<open>!==\<close> with a string literal are equality and inequality with \<open>JStr\<close>
  of that literal.
\<close>

definition formattedDateTime :: "variant \<Rightarrow> 'a env \<Rightarrow> 'a jsobject \<Rightarrow> jserror + string" where
  "formattedDateTime v env bookingData =
     (if getProp bookingData ''type'' = JStr (scheduledRide v)
         \<and> getProp bookingData ''dateTime'' \<noteq> JStr ''As soon as possible''
      then toLocaleString env (getProp bookingData ''dateTime'')
      else Inr (immediately v))"

text \<open>
  The stored record \<^verbatim>\<open>{ bookingNumber, ...bookingData, timestamp: new Date().toISOString() }\<close>:
  the properties are written from left to right, a later one replacing an earlier one of
  the same name.
\<close>

definition bookingRecord :: "string \<Rightarrow> 'a jsobject \<Rightarrow> string \<Rightarrow> 'a jsobject" where
  "bookingRecord bookingNumber bookingData timestamp =
     ([''bookingNumber'' \<mapsto> JStr bookingNumber] ++ bookingData)(''timestamp'' \<mapsto> JStr timestamp)"

text \<open>The two mails of a booking; building them throws when a substitution throws.\<close>

definition bookingMails ::
  "variant \<Rightarrow> 'a env \<Rightarrow> string \<Rightarrow> 'a jsobject \<Rightarrow> string \<Rightarrow> jserror + 'a mail \<times> 'a mail" where
  "bookingMails v env bookingNumber bookingData cancellationUrl =
     (case formattedDateTime v env bookingData of
        Inl error \<Rightarrow> Inl error
      | Inr formatted \<Rightarrow>
     (case template env (customerHtml v bookingNumber bookingData formatted cancellationUrl) of
        Inl error \<Rightarrow> Inl error
      | Inr customer \<Rightarrow>
     (case template env (adminHtml v bookingNumber bookingData formatted) of
        Inl error \<Rightarrow> Inl error
      | Inr admin \<Rightarrow>
          Inr (\<lparr>mail_from = envValue (EMAIL_USER env), mail_to = getProp bookingData ''email'',
                 subject = customerSubject v bookingNumber, html = customer\<rparr>,
               \<lparr>mail_from = envValue (EMAIL_USER env), mail_to = envValue (EMAIL_USER env),
                 subject = adminSubject v bookingNumber, html = admin\<rparr>))))"

definition bookingConfirmed :: "variant \<Rightarrow> string \<Rightarrow> response" where
  "bookingConfirmed v bookingNumber =
     \<lparr>status = 200,
      body = Json [(''success'', JsonBool True),
                   (''message'', JsonString (bookingConfirmedMessage v)),
                   (''bookingNumber'', JsonString bookingNumber)]\<rparr>"

definition bookingFailed :: "variant \<Rightarrow> response" where
  "bookingFailed v =
     \<lparr>status = 500,
      body = Json [(''success'', JsonBool False),
                   (''error'', JsonString (bookingFailedMessage v))]\<rparr>"

text \<open>
  \<^verbatim>\<open>app.post('/api/book-ride', ...)\<close> of the German and the English server. Both mails
  are handed to the transport (\<^verbatim>\<open>Promise.all\<close> of the two \<^verbatim>\<open>sendMail\<close> calls); the
  \<^verbatim>\<open>await\<close> throws when one of the two promises is rejected. Every error thrown inside
  the \<^verbatim>\<open>try\<close> block ends in the \<^verbatim>\<open>catch\<close> block, which logs it and answers 500.
\<close>

definition book_ride ::
  "variant \<Rightarrow> 'a env \<Rightarrow> 'a state \<Rightarrow> 'a jsobject \<Rightarrow> 'a state \<times> response" where
  "book_ride v env st bookingData =
     (let bookingNumber = generateBookingNumber (dateNow env) (randomThousand env);
          cancellationToken = generateCancellationToken (entropy env);
          cancellationUrl = baseUrl v env @ ''/api/cancel-ride?token='' @ cancellationToken;
          st1 = bookings_set st cancellationToken
                  (bookingRecord bookingNumber bookingData (toISOString env))
      in case bookingMails v env bookingNumber bookingData cancellationUrl of
           Inl error \<Rightarrow> (st1, bookingFailed v)
         | Inr (customerMailOptions, adminMailOptions) \<Rightarrow>
             (let st2 = dispatch st1 [customerMailOptions, adminMailOptions]
              in if sendMail env customerMailOptions = None \<and> sendMail env adminMailOptions = None
                 then (st2, bookingConfirmed v bookingNumber)
                 else (st2, bookingFailed v)))"

section \<open>The cancellation handler\<close>

definition cancelMails :: "variant \<Rightarrow> 'a env \<Rightarrow> 'a jsobject \<Rightarrow> jserror + 'a mail \<times> 'a mail" where
  "cancelMails v env booking =
     (case template env (customerCancelSubject v booking) of
        Inl error \<Rightarrow> Inl error
      | Inr customerSubj \<Rightarrow>
     (case template env (customerCancelHtml v booking) of
        Inl error \<Rightarrow> Inl error
      | Inr customer \<Rightarrow>
     (case template env (adminCancelSubject v booking) of
        Inl error \<Rightarrow> Inl error
      | Inr adminSubj \<Rightarrow>
     (case template env (adminCancelHtml v booking) of
        Inl error \<Rightarrow> Inl error
      | Inr admin \<Rightarrow>
          Inr (\<lparr>mail_from = envValue (EMAIL_USER env), mail_to = getProp booking ''email'',
                 subject = customerSubj, html = customer\<rparr>,
               \<lparr>mail_from = envValue (EMAIL_USER env), mail_to = envValue (EMAIL_USER env),
                 subject = adminSubj, html = admin\<rparr>)))))"

definition notFound :: "variant \<Rightarrow> response" where
  "notFound v = \<lparr>status = 404, body = Send (notFoundMessage v)\<rparr>"

definition cancelFailed :: "variant \<Rightarrow> response" where
  "cancelFailed v = \<lparr>status = 500, body = Send (cancelFailedMessage v)\<rparr>"

text \<open>
  \<^verbatim>\<open>app.get('/api/cancel-ride', ...)\<close> runs in two parts, separated by its one
  \<^verbatim>\<open>await\<close>. Other requests can be served between the two. A request that has reached
  the \<^verbatim>\<open>await\<close> keeps its own \<^verbatim>\<open>token\<close> and \<^verbatim>\<open>booking\<close> and the two mails it has
  handed to the transport.
\<close>

record 'a suspended =
  suspendedToken :: "'a jsval"
  suspendedBooking :: "'a jsobject"
  customerCancelMailOptions :: "'a mail"
  adminCancelMailOptions :: "'a mail"

text \<open>
  Up to the \<^verbatim>\<open>await\<close>: the lookup, the two mails and the two calls of \<^verbatim>\<open>sendMail\<close>. The
  result is the response when the handler has answered already, or the suspended
  request. (After a successful \<open>has\<close>, \<open>get\<close> finds the record; were it \<^verbatim>\<open>undefined\<close>,
  reading \<^verbatim>\<open>booking.email\<close> would throw.)
\<close>

definition cancel_ride_begin ::
  "variant \<Rightarrow> 'a env \<Rightarrow> 'a state \<Rightarrow> 'a jsval \<Rightarrow> 'a state \<times> (response + 'a suspended)" where
  "cancel_ride_begin v env st tok =
     (if \<not> bookings_has st tok then (st, Inl (notFound v))
      else case bookings_get st tok of
             None \<Rightarrow> (st, Inl (cancelFailed v))
           | Some bk \<Rightarrow>
               (case cancelMails v env bk of
                  Inl error \<Rightarrow> (st, Inl (cancelFailed v))
                | Inr (customerMail, adminMail) \<Rightarrow>
                    (dispatch st [customerMail, adminMail],
                     Inr \<lparr>suspendedToken = tok, suspendedBooking = bk,
                          customerCancelMailOptions = customerMail,
                          adminCancelMailOptions = adminMail\<rparr>)))"

text \<open>
  After the \<^verbatim>\<open>await\<close>: when a promise was rejected, the \<^verbatim>\<open>catch\<close> block answers 500;
  otherwise the record is deleted and the page is sent.
\<close>

definition cancel_ride_end ::
  "variant \<Rightarrow> 'a env \<Rightarrow> 'a state \<Rightarrow> 'a suspended \<Rightarrow> 'a state \<times> response" where
  "cancel_ride_end v env st s =
     (if sendMail env (customerCancelMailOptions s) = None
         \<and> sendMail env (adminCancelMailOptions s) = None
      then (let st1 = bookings_delete st (suspendedToken s)
            in case template env (successPage v (suspendedBooking s)) of
                 Inl error \<Rightarrow> (st1, cancelFailed v)
               | Inr page \<Rightarrow> (st1, \<lparr>status = 200, body = Send page\<rparr>))
      else (st, cancelFailed v))"

text \<open>One cancellation request served with no other request in between.\<close>

definition cancel_ride ::
  "variant \<Rightarrow> 'a env \<Rightarrow> 'a state \<Rightarrow> 'a jsval \<Rightarrow> 'a state \<times> response" where
  "cancel_ride v env st tok =
     (case cancel_ride_begin v env st tok of
        (st1, Inl res) \<Rightarrow> (st1, res)
      | (st1, Inr s) \<Rightarrow> cancel_ride_end v env st1 s)"

subsection \<open>Two cancellation requests in flight\<close>

text \<open>
  The runtime runs one handler at a time and switches only at an \<^verbatim>\<open>await\<close>. A request
  is thus waiting to start, suspended at its \<^verbatim>\<open>await\<close>, or answered; a step of the event
  loop runs one request up to its next \<^verbatim>\<open>await\<close> or to its end. A schedule says which of
  the two requests runs at each step (\<open>False\<close> the first, \<open>True\<close> the second).
\<close>

datatype 'a request = Arrived "'a jsval" | Suspended "'a suspended" | Answered response

definition request_step ::
  "variant \<Rightarrow> 'a env \<Rightarrow> 'a state \<Rightarrow> 'a request \<Rightarrow> 'a state \<times> 'a request" where
  "request_step v env st r =
     (case r of
        Arrived tok \<Rightarrow>
          (case cancel_ride_begin v env st tok of
             (st1, Inl res) \<Rightarrow> (st1, Answered res)
           | (st1, Inr s) \<Rightarrow> (st1, Suspended s))
      | Suspended s \<Rightarrow>
          (case cancel_ride_end v env st s of (st1, res) \<Rightarrow> (st1, Answered res))
      | Answered res \<Rightarrow> (st, Answered res))"

fun run_two ::
  "variant \<Rightarrow> 'a env \<Rightarrow> bool list \<Rightarrow> 'a state \<times> 'a request \<times> 'a request
     \<Rightarrow> 'a state \<times> 'a request \<times> 'a request" where
  "run_two v env [] c = c"
| "run_two v env (b # bs) (st, r1, r2) =
     (if b then (case request_step v env st r2 of (st1, r2') \<Rightarrow> run_two v env bs (st1, r1, r2'))
      else (case request_step v env st r1 of (st1, r1') \<Rightarrow> run_two v env bs (st1, r1', r2)))"

section \<open>The booking handler of the server without a store\<close>

text \<open>
  The third server builds both mails before its \<^verbatim>\<open>try\<close> block, so that a substitution
  that throws leaves the handler (\<open>Inl\<close>). Inside the block it awaits the mail for the
  administrator, then the one for the customer; the \<^verbatim>\<open>catch\<close> block answers with the
  message of the error it caught. The result lists the mails handed to the transport.
\<close>

definition bookingConfirmed3 :: response where
  "bookingConfirmed3 =
     \<lparr>status = 200,
      body = Json [(''message'', JsonString ''Booking confirmed! Check your email for details.'')]\<rparr>"

definition bookingFailed3 :: "jserror \<Rightarrow> response" where
  "bookingFailed3 error =
     \<lparr>status = 500,
      body = Json [(''message'', JsonString ''Failed to process booking. Please try again.''),
                   (''error'', JsonString (message error))]\<rparr>"

definition book_ride3 :: "'a env \<Rightarrow> 'a jsobject \<Rightarrow> jserror + 'a mail list \<times> response" where
  "book_ride3 env reqBody =
     (let pickupLocation = getProp reqBody ''pickupLocation'';
          destination = getProp reqBody ''destination'';
          dateTime = getProp reqBody ''dateTime'';
          phone = getProp reqBody ''phone'';
          email = getProp reqBody ''email'';
          type = getProp reqBody ''type''
      in case template env (adminHtml3 pickupLocation destination dateTime phone email type) of
           Inl error \<Rightarrow> Inl error
         | Inr admin \<Rightarrow>
      (case template env (customerHtml3 pickupLocation destination dateTime phone email type) of
           Inl error \<Rightarrow> Inl error
         | Inr customer \<Rightarrow>
          (let adminMailOptions =
                 \<lparr>mail_from = envValue (EMAIL_USER env), mail_to = envValue (EMAIL_USER env),
                  subject = ''New Ride Booking - TaxiBoy'', html = admin\<rparr>;
               customerMailOptions =
                 \<lparr>mail_from = envValue (EMAIL_USER env), mail_to = email,
                  subject = ''Your TaxiBoy Ride Booking Confirmation'', html = customer\<rparr>
           in case sendMail env adminMailOptions of
                Some error \<Rightarrow> Inr ([adminMailOptions], bookingFailed3 error)
              | None \<Rightarrow>
                  (case sendMail env customerMailOptions of
                     Some error \<Rightarrow>
                       Inr ([adminMailOptions, customerMailOptions], bookingFailed3 error)
                   | None \<Rightarrow>
                       Inr ([adminMailOptions, customerMailOptions], bookingConfirmed3)))))"

section \<open>Auxiliary notions for the proofs\<close>

text \<open>The substitutions of a template, and the values a template can print.\<close>

primrec substitutions :: "'a piece list \<Rightarrow> 'a jsval list" where
  "substitutions [] = []"
| "substitutions (p # ps) =
     (case p of Lit s \<Rightarrow> substitutions ps | Sub x \<Rightarrow> x # substitutions ps)"

definition printable :: "'a env \<Rightarrow> 'a jsval \<Rightarrow> bool" where
  "printable env x = (case ToString env x of Inl error \<Rightarrow> False | Inr s \<Rightarrow> True)"

text \<open>
  A sample request, used to instantiate the theorems below: the server runs with its
  default settings on 1 March 2025, 10:00 UTC, its locale data print that instant as
  \<^verbatim>\<open>Saturday, March 1, 2025 at 10:00 AM\<close>, every value prints, and the transport
  accepts every mail.
\<close>

definition sampleEnv :: "unit env" where
  "sampleEnv =
     \<lparr>EMAIL_USER = Some ''taxi@example.org'', PORT = None, NODE_ENV = None, BASE_URL = None,
      dateNow = 1740823200000, randomThousand = 7, entropy = (\<lambda>i. of_nat i),
      toISOString = ''2025-03-01T10:00:00.000Z'',
      stringOfOther = (\<lambda>a. Inr ''[object Object]''),
      localeOfString =
        (\<lambda>s. if s = ''2025-03-01T10:00:00Z'' then ''Saturday, March 1, 2025 at 10:00 AM''
             else ''Invalid Date''),
      localeOfOther = (\<lambda>a. Inr ''Invalid Date''),
      sendMail = (\<lambda>m. None)\<rparr>"

definition sampleBody :: "unit jsobject" where
  "sampleBody =
     [''pickupLocation'' \<mapsto> JStr ''Airport'', ''destination'' \<mapsto> JStr ''Main Station'',
      ''dateTime'' \<mapsto> JStr ''2025-03-01T10:00:00Z'', ''phone'' \<mapsto> JStr ''+49 30 1234'',
      ''email'' \<mapsto> JStr ''ada@example.org'', ''type'' \<mapsto> JStr ''Scheduled Ride'',
      ''vehicleType'' \<mapsto> JStr ''Van'', ''name'' \<mapsto> JStr ''Ada'']"

definition emptyState :: "unit state" where
  "emptyState = \<lparr>activeBookings = Map.empty, outbox = []\<rparr>"

text \<open>The identifiers the booking handler generates in an environment.\<close>

abbreviation bookingNumberOf :: "'a env \<Rightarrow> string" where
  "bookingNumberOf env \<equiv> generateBookingNumber (dateNow env) (randomThousand env)"

abbreviation tokenOf :: "'a env \<Rightarrow> string" where
  "tokenOf env \<equiv> generateCancellationToken (entropy env)"

abbreviation cancellationUrlOf :: "variant \<Rightarrow> 'a env \<Rightarrow> string" where
  "cancellationUrlOf v env \<equiv> baseUrl v env @ ''/api/cancel-ride?token='' @ tokenOf env"

abbreviation recordOf :: "'a env \<Rightarrow> 'a jsobject \<Rightarrow> 'a jsobject" where
  "recordOf env bookingData \<equiv> bookingRecord (bookingNumberOf env) bookingData (toISOString env)"

text \<open>
  The schedules of two cancellation requests in which each request is given its two
  steps: which request runs first, and whether the other one starts before the first
  has finished.
\<close>

definition schedules :: "bool list list" where
  "schedules =
     [[False, False, True, True], [False, True, False, True], [False, True, True, False],
      [True, False, False, True], [True, False, True, False], [True, True, False, False]]"

section \<open>Properties of the identifier generator\<close>

lemma digitChar_hex: "d < 16 \<Longrightarrow> digitChar d \<in> set hexDigits"
proof -
  assume "d < 16"
  moreover have "length hexDigits = 16" by (simp add: hexDigits_def)
  ultimately show ?thesis unfolding digitChar_def by simp
qed

lemma byteToHex_length: "length (byteToHex b) = 2"
  by (simp add: byteToHex_def)

lemma byteToHex_chars: "set (byteToHex b) \<subseteq> set hexDigits"
proof -
  have "unat b < 256" using unsigned_less [of b] by simp
  then have "unat b div 16 < 16" by simp
  moreover have "unat b mod 16 < 16" by simp
  ultimately show ?thesis
    by (simp add: byteToHex_def digitChar_hex)
qed

lemma toStringHex_length: "length (toStringHex bs) = 2 * length bs"
  by (induction bs) (simp_all add: toStringHex_def byteToHex_length)

lemma toStringHex_chars: "set (toStringHex bs) \<subseteq> set hexDigits"
  by (induction bs) (simp_all add: toStringHex_def byteToHex_chars)

lemma hex_unreserved: "c \<in> set hexDigits \<Longrightarrow> uriUnreserved c"
  by (auto simp: hexDigits_def uriUnreserved_def)

lemma encodeURIComponent_unreserved:
  "list_all uriUnreserved s \<Longrightarrow> encodeURIComponent s = s"
  by (induction s) (simp_all add: encodeURIComponent_def encodeChar_def)

text \<open>
  C7. Every cancellation token is the lower-case hexadecimal rendering of the 32 bytes
  read from the entropy source: it has exactly 64 characters, each one a hexadecimal
  digit, and URL-query encoding leaves it unchanged.
\<close>

theorem generateCancellationToken_shape:
  "length (randomBytes src 32) = 32
   \<and> generateCancellationToken src = toStringHex (randomBytes src 32)
   \<and> length (generateCancellationToken src) = 64
   \<and> set (generateCancellationToken src) \<subseteq> set hexDigits
   \<and> encodeURIComponent (generateCancellationToken src) = generateCancellationToken src"
proof -
  have chars: "set (generateCancellationToken src) \<subseteq> set hexDigits"
    unfolding generateCancellationToken_def by (rule toStringHex_chars)
  have "list_all uriUnreserved (generateCancellationToken src)"
    using chars hex_unreserved unfolding list_all_iff by blast
  then have "encodeURIComponent (generateCancellationToken src) = generateCancellationToken src"
    by (rule encodeURIComponent_unreserved)
  moreover have "length (generateCancellationToken src) = 64"
    by (simp add: generateCancellationToken_def toStringHex_length randomBytes_def)
  moreover have "length (randomBytes src 32) = 32"
    by (simp add: randomBytes_def)
  ultimately show ?thesis
    using chars by (simp add: generateCancellationToken_def)
qed

section \<open>Decimal digits\<close>

lemma digitChar_decimal: "d < 10 \<Longrightarrow> digitChar d \<in> set decimalDigits"
proof -
  assume d: "d < 10"
  have "take 10 hexDigits = decimalDigits" by (simp add: hexDigits_def decimalDigits_def)
  moreover have "length decimalDigits = 10" by (simp add: decimalDigits_def)
  ultimately have "decimalDigits ! d = hexDigits ! d" using d
    by (metis nth_take)
  moreover have "decimalDigits ! d \<in> set decimalDigits"
    using d \<open>length decimalDigits = 10\<close> by simp
  ultimately show ?thesis by (simp add: digitChar_def)
qed

lemma lastDigits_length: "length (lastDigits k n) = k"
  by (induction k arbitrary: n) simp_all

lemma lastDigits_chars: "set (lastDigits k n) \<subseteq> set decimalDigits"
  by (induction k arbitrary: n) (simp_all add: digitChar_decimal)

lemma lastDigits_mod: "lastDigits k (n mod 10 ^ k) = lastDigits k n"
proof (induction k arbitrary: n)
  case 0
  show ?case by simp
next
  case (Suc k)
  have a: "n mod 10 ^ Suc k div 10 = (n div 10) mod 10 ^ k"
    by (simp add: mod_mult2_eq)
  have b: "n mod 10 ^ Suc k mod 10 = n mod 10"
    by (simp add: mod_mod_cancel)
  show ?case using Suc [of "n div 10"] by (simp add: a b del: power_Suc)
qed

lemma numberToString_snoc:
  "numberToString n = (if n < 10 then [] else numberToString (n div 10)) @ [digitChar (n mod 10)]"
  by (subst numberToString.simps) simp

lemma drop_snoc_last:
  "drop (length s - k) s = t \<Longrightarrow> drop (length (s @ [d]) - Suc k) (s @ [d]) = t @ [d]"
  by simp

lemma sliceLast_numberToString:
  "0 < k \<Longrightarrow> 10 ^ (k - 1) \<le> n \<Longrightarrow> sliceLast k (numberToString n) = lastDigits k n"
proof (induction k arbitrary: n)
  case 0
  then show ?case by simp
next
  case (Suc k)
  show ?case
  proof (cases "k = 0")
    case True
    have "sliceLast 1 (s @ [d]) = [d]" for s :: string and d
      by (simp add: sliceLast_def)
    then show ?thesis
      using True by (subst numberToString_snoc) simp
  next
    case False
    then have k: "0 < k" by simp
    with Suc.prems have n: "10 * 10 ^ (k - 1) \<le> n"
      by (cases k) simp_all
    then have "10 ^ (k - 1) \<le> n div 10" by simp
    from Suc.IH [OF k this]
    have ih: "drop (length (numberToString (n div 10)) - k) (numberToString (n div 10))
                = lastDigits k (n div 10)"
      by (simp only: sliceLast_def)
    have "(1::nat) \<le> 10 ^ (k - 1)" by simp
    then have "10 \<le> n" using n by linarith
    then have eq: "numberToString n = numberToString (n div 10) @ [digitChar (n mod 10)]"
      by (subst numberToString.simps) simp
    show ?thesis
      unfolding sliceLast_def eq lastDigits.simps
      using ih by (rule drop_snoc_last)
  qed
qed

lemma lastDigits_zero: "lastDigits k 0 = replicate k (digitChar 0)"
  by (induction k) (simp_all add: replicate_append_same)

lemma pad_snoc:
  "replicate (k - length s) c @ s = t \<Longrightarrow> replicate (Suc k - length (s @ [d])) c @ s @ [d] = t @ [d]"
  by simp

lemma padStart_numberToString:
  "0 < k \<Longrightarrow> n < 10 ^ k \<Longrightarrow> padStart k (digitChar 0) (numberToString n) = lastDigits k n"
proof (induction k arbitrary: n)
  case 0
  then show ?case by simp
next
  case (Suc k)
  show ?case
  proof (cases "n < 10")
    case True
    then have "numberToString n = [digitChar n]" by (subst numberToString.simps) simp
    with True show ?thesis by (simp add: padStart_def lastDigits_zero)
  next
    case False
    then have k: "0 < k" using Suc.prems by (cases k) simp_all
    have "n div 10 < 10 ^ k" using Suc.prems by (simp add: less_mult_imp_div_less mult.commute)
    from Suc.IH [OF k this]
    have ih: "replicate (k - length (numberToString (n div 10))) (digitChar 0) @ numberToString (n div 10)
                = lastDigits k (n div 10)"
      by (simp only: padStart_def)
    have eq: "numberToString n = numberToString (n div 10) @ [digitChar (n mod 10)]"
      using False by (subst numberToString.simps) simp
    show ?thesis
      unfolding padStart_def eq lastDigits.simps
      using ih by (rule pad_snoc)
  qed
qed

lemma lastDigits_numeral:
  "lastDigits (numeral k) n = lastDigits (pred_numeral k) (n div 10) @ [digitChar (n mod 10)]"
  by (simp only: numeral_eq_Suc [of k] lastDigits.simps)
lemma digitChar_simps:
  "digitChar 0 = CHR ''0''" "digitChar 1 = CHR ''1''" "digitChar 2 = CHR ''2''"
  "digitChar 3 = CHR ''3''" "digitChar 4 = CHR ''4''" "digitChar 5 = CHR ''5''"
  "digitChar 6 = CHR ''6''" "digitChar 7 = CHR ''7''" "digitChar 8 = CHR ''8''"
  "digitChar 9 = CHR ''9''" "digitChar (Suc 0) = CHR ''1''"
  by (simp_all add: digitChar_def hexDigits_def)
lemma replicate_pred_numeral:
  "replicate (numeral k) x = x # replicate (pred_numeral k) x"
  by (simp only: numeral_eq_Suc [of k] replicate.simps)

lemma generateBookingNumber_digits:
  assumes "100000 \<le> clock" and "rnd < 1000"
  shows "generateBookingNumber clock rnd = ''TB'' @ lastDigits 6 (nat clock) @ lastDigits 3 rnd"
proof -
  have "\<not> clock < 0" using assms(1) by simp
  then have i: "intToString clock = numberToString (nat clock)"
    by (simp add: intToString_def)
  have "(10::nat) ^ (6 - 1) \<le> nat clock" using assms(1) by simp
  then have t: "sliceLast 6 (numberToString (nat clock)) = lastDigits 6 (nat clock)"
    by (intro sliceLast_numberToString) simp_all
  have "rnd < 10 ^ 3" using assms(2) by simp
  then have "padStart 3 (digitChar 0) (numberToString rnd) = lastDigits 3 rnd"
    by (intro padStart_numberToString) simp_all
  then have r: "padStart 3 (CHR ''0'') (numberToString rnd) = lastDigits 3 rnd"
    by (simp add: digitChar_simps)
  show ?thesis
    by (simp add: generateBookingNumber_def Let_def i t r)
qed

section \<open>Templates\<close>

lemma template_Inr_iff:
  "(\<exists>h. template env ps = Inr h) = list_all (printable env) (substitutions ps)"
proof (induction ps)
  case Nil
  show ?case by simp
next
  case (Cons p ps)
  show ?case
  proof (cases p)
    case (Lit s)
    with Cons show ?thesis by (auto split: sum.splits)
  next
    case (Sub x)
    with Cons show ?thesis by (auto simp: printable_def split: sum.splits)
  qed
qed

lemma sublist_prepend: "sublist s r \<Longrightarrow> sublist s (t @ r)"
proof -
  assume "sublist s r"
  then obtain ps ss where "r = ps @ s @ ss" unfolding sublist_def by blast
  then have "t @ r = (t @ ps) @ s @ ss" by simp
  then show ?thesis unfolding sublist_def by blast
qed

lemma template_sublist:
  "template env ps = Inr h \<Longrightarrow> Sub x \<in> set ps \<Longrightarrow> ToString env x = Inr s \<Longrightarrow> sublist s h"
proof (induction ps arbitrary: h)
  case Nil
  then show ?case by simp
next
  case (Cons p ps)
  show ?case
  proof (cases p)
    case (Lit t)
    with Cons.prems obtain r where r: "template env ps = Inr r" "h = t @ r"
      by (auto split: sum.splits)
    from Cons.prems Lit have "Sub x \<in> set ps" by simp
    from Cons.IH [OF r(1) this Cons.prems(3)] have "sublist s r" .
    then show ?thesis unfolding r(2) by (rule sublist_prepend)
  next
    case (Sub y)
    with Cons.prems obtain u r where r: "ToString env y = Inr u" "template env ps = Inr r" "h = u @ r"
      by (auto split: sum.splits)
    show ?thesis
    proof (cases "x = y")
      case True
      with r Cons.prems(3) have "h = s @ r" by simp
      then show ?thesis by (simp add: sublist_append_rightI)
    next
      case False
      with Cons.prems Sub have "Sub x \<in> set ps" by simp
      from Cons.IH [OF r(2) this Cons.prems(3)] have "sublist s r" .
      then show ?thesis unfolding r(3) by (rule sublist_prepend)
    qed
  qed
qed

text \<open>The substitutions of each template, the same in both languages.\<close>

lemma subs_customerHtml:
  "substitutions (customerHtml v bookingNumber bookingData formatted url) =
     [JStr bookingNumber, getProp bookingData ''type'', getProp bookingData ''pickupLocation'',
      getProp bookingData ''destination'', JStr formatted, getProp bookingData ''vehicleType'',
      getProp bookingData ''name'', getProp bookingData ''phone'', getProp bookingData ''email'',
      JStr url]"
  by (cases v) (simp_all add: customerHtml.simps)

lemma subs_adminHtml:
  "substitutions (adminHtml v bookingNumber bookingData formatted) =
     [JStr bookingNumber, getProp bookingData ''type'', getProp bookingData ''pickupLocation'',
      getProp bookingData ''destination'', JStr formatted, getProp bookingData ''vehicleType'',
      getProp bookingData ''name'', getProp bookingData ''phone'', getProp bookingData ''email'']"
  by (cases v) (simp_all add: adminHtml.simps)

lemma subs_customerCancelSubject:
  "substitutions (customerCancelSubject v booking) = [getProp booking ''bookingNumber'']"
  by (cases v) (simp_all add: customerCancelSubject.simps)

lemma subs_customerCancelHtml:
  "substitutions (customerCancelHtml v booking) =
     [getProp booking ''bookingNumber'', getProp booking ''bookingNumber'',
      getProp booking ''name'', getProp booking ''pickupLocation'',
      getProp booking ''destination'']"
  by (cases v) (simp_all add: customerCancelHtml.simps)

lemma subs_adminCancelSubject:
  "substitutions (adminCancelSubject v booking) = [getProp booking ''bookingNumber'']"
  by (cases v) (simp_all add: adminCancelSubject.simps)

lemma subs_adminCancelHtml:
  "substitutions (adminCancelHtml v booking) =
     [getProp booking ''bookingNumber'', getProp booking ''bookingNumber'',
      getProp booking ''name'', getProp booking ''email'', getProp booking ''phone'',
      getProp booking ''pickupLocation'', getProp booking ''destination'',
      getProp booking ''vehicleType'']"
  by (cases v) (simp_all add: adminCancelHtml.simps)

lemma subs_successPage:
  "substitutions (successPage v booking) = [getProp booking ''bookingNumber'']"
  by (cases v) (simp_all add: successPage.simps)

lemma subs_adminHtml3:
  "substitutions (adminHtml3 pickupLocation destination dateTime phone email type) =
     [type, email, phone, pickupLocation, destination, dateTime]"
  by (simp add: adminHtml3_def)

lemma subs_customerHtml3:
  "substitutions (customerHtml3 pickupLocation destination dateTime phone email type) =
     [type, pickupLocation, destination, dateTime]"
  by (simp add: customerHtml3_def)

lemmas subs_simps =
  subs_customerHtml subs_adminHtml subs_customerCancelSubject subs_customerCancelHtml
  subs_adminCancelSubject subs_adminCancelHtml subs_successPage subs_adminHtml3
  subs_customerHtml3

lemma Sub_in_template: "Sub x \<in> set ps \<longleftrightarrow> x \<in> set (substitutions ps)"
  by (induction ps) (auto split: piece.splits)

lemma printable_JStr [simp]: "printable env (JStr s)"
  by (simp add: printable_def)

lemma printable_JUndefined [simp]: "printable env JUndefined"
  by (simp add: printable_def)

lemma printable_total:
  assumes "\<And>a. \<exists>s. stringOfOther env a = Inr s"
  shows "printable env x"
proof (cases x)
  case (JOther a)
  with assms [of a] show ?thesis by (auto simp: printable_def)
qed simp_all

lemma template_total:
  assumes "\<And>a. \<exists>s. stringOfOther env a = Inr s"
  shows "\<exists>h. template env ps = Inr h"
  unfolding template_Inr_iff list_all_iff using printable_total [OF assms] by blast

section \<open>The booking handler, case by case\<close>

lemma formattedDateTime_total:
  assumes "\<And>a. \<exists>s. localeOfOther env a = Inr s"
  shows "\<exists>f. formattedDateTime v env bookingData = Inr f"
proof (cases "getProp bookingData ''dateTime''")
  case (JOther a)
  with assms [of a] show ?thesis
    by (auto simp: formattedDateTime_def toLocaleString_def)
qed (simp_all add: formattedDateTime_def toLocaleString_def)

lemma bookingMails_total:
  assumes "\<And>a. \<exists>s. stringOfOther env a = Inr s" and "\<And>a. \<exists>s. localeOfOther env a = Inr s"
  shows "\<exists>customer admin. bookingMails v env bookingNumber bookingData url = Inr (customer, admin)"
proof -
  from formattedDateTime_total [OF assms(2)]
  obtain f where f: "formattedDateTime v env bookingData = Inr f" by blast
  from template_total [OF assms(1)]
  obtain c where c: "template env (customerHtml v bookingNumber bookingData f url) = Inr c" by blast
  from template_total [OF assms(1)]
  obtain a where a: "template env (adminHtml v bookingNumber bookingData f) = Inr a" by blast
  show ?thesis by (simp add: bookingMails_def f c a)
qed

lemma bookingMails_Inr:
  assumes "bookingMails v env bookingNumber bookingData url = Inr (customer, admin)"
  shows "\<exists>f. formattedDateTime v env bookingData = Inr f
           \<and> template env (customerHtml v bookingNumber bookingData f url) = Inr (html customer)
           \<and> template env (adminHtml v bookingNumber bookingData f) = Inr (html admin)"
  using assms by (auto simp: bookingMails_def split: sum.splits)

lemma book_ride_Inl:
  assumes "bookingMails v env (bookingNumberOf env) bookingData (cancellationUrlOf v env) = Inl error"
  shows "book_ride v env st bookingData =
           (bookings_set st (tokenOf env) (recordOf env bookingData), bookingFailed v)"
  using assms by (simp add: book_ride_def Let_def)

lemma book_ride_Inr:
  assumes "bookingMails v env (bookingNumberOf env) bookingData (cancellationUrlOf v env)
             = Inr (customer, admin)"
  shows "book_ride v env st bookingData =
           (dispatch (bookings_set st (tokenOf env) (recordOf env bookingData)) [customer, admin],
            if sendMail env customer = None \<and> sendMail env admin = None
            then bookingConfirmed v (bookingNumberOf env) else bookingFailed v)"
  using assms by (simp add: book_ride_def Let_def)

lemma book_ride_store:
  "activeBookings (fst (book_ride v env st bookingData)) =
     (activeBookings st)(tokenOf env \<mapsto> recordOf env bookingData)"
proof (cases "bookingMails v env (bookingNumberOf env) bookingData (cancellationUrlOf v env)")
  case (Inl error)
  from book_ride_Inl [OF this] show ?thesis by (simp add: bookings_set_def)
next
  case (Inr p)
  then obtain c a where "bookingMails v env (bookingNumberOf env) bookingData (cancellationUrlOf v env) = Inr (c, a)"
    by (cases p) simp
  from book_ride_Inr [OF this] show ?thesis by (simp add: bookings_set_def dispatch_def)
qed

lemma book_ride_response:
  "snd (book_ride v env st bookingData) = bookingConfirmed v (bookingNumberOf env)
   \<or> snd (book_ride v env st bookingData) = bookingFailed v"
proof (cases "bookingMails v env (bookingNumberOf env) bookingData (cancellationUrlOf v env)")
  case (Inl error)
  from book_ride_Inl [OF this] show ?thesis by simp
next
  case (Inr p)
  then obtain c a where "bookingMails v env (bookingNumberOf env) bookingData (cancellationUrlOf v env) = Inr (c, a)"
    by (cases p) simp
  from book_ride_Inr [OF this] show ?thesis by simp
qed

lemma bookingRecord_timestamp:
  "bookingRecord bookingNumber bookingData timestamp ''timestamp'' = Some (JStr timestamp)"
  by (simp add: bookingRecord_def)

lemma bookingRecord_bookingNumber:
  "bookingRecord bookingNumber bookingData timestamp ''bookingNumber'' =
     (case bookingData ''bookingNumber'' of None \<Rightarrow> Some (JStr bookingNumber) | Some x \<Rightarrow> Some x)"
  by (simp add: bookingRecord_def map_add_def split: option.splits)

lemma bookingRecord_other:
  "p \<noteq> ''timestamp'' \<Longrightarrow> p \<noteq> ''bookingNumber'' \<Longrightarrow>
     bookingRecord bookingNumber bookingData timestamp p = bookingData p"
  by (simp add: bookingRecord_def map_add_def split: option.splits)

lemma book_ride_failed:
  assumes "status (snd (book_ride v env st bookingData)) = 500"
  shows "snd (book_ride v env st bookingData) = bookingFailed v"
proof -
  have "status (bookingConfirmed v (bookingNumberOf env)) = 200"
    by (simp add: bookingConfirmed_def)
  with assms book_ride_response [of v env st bookingData] show ?thesis by auto
qed

lemma book_ride3_cases:
  assumes "book_ride3 env reqBody = Inr (ms, res)"
  shows "res = bookingConfirmed3
         \<or> (\<exists>m error. m \<in> set ms \<and> sendMail env m = Some error \<and> res = bookingFailed3 error)"
  using assms
  by (fastforce simp: book_ride3_def Let_def split: sum.splits option.splits)

lemma book_ride3_rejected:
  assumes "\<And>a. \<exists>s. stringOfOther env a = Inr s" and "\<And>m. sendMail env m = Some error"
  shows "\<exists>ms. book_ride3 env reqBody = Inr (ms, bookingFailed3 error)"
proof -
  from template_total [OF assms(1)]
  obtain a where a: "template env (adminHtml3 (getProp reqBody ''pickupLocation'')
      (getProp reqBody ''destination'') (getProp reqBody ''dateTime'') (getProp reqBody ''phone'')
      (getProp reqBody ''email'') (getProp reqBody ''type'')) = Inr a"
    by blast
  from template_total [OF assms(1)]
  obtain c where c: "template env (customerHtml3 (getProp reqBody ''pickupLocation'')
      (getProp reqBody ''destination'') (getProp reqBody ''dateTime'') (getProp reqBody ''phone'')
      (getProp reqBody ''email'') (getProp reqBody ''type'')) = Inr c"
    by blast
  show ?thesis by (simp add: book_ride3_def Let_def a c assms(2))
qed

lemma book_ride_outbox:
  assumes "book_ride v env st bookingData = (st', res)"
    and "outbox st' = outbox st @ [customer, admin]"
  shows "bookingMails v env (bookingNumberOf env) bookingData (cancellationUrlOf v env)
           = Inr (customer, admin)"
proof (cases "bookingMails v env (bookingNumberOf env) bookingData (cancellationUrlOf v env)")
  case (Inl error)
  from book_ride_Inl [OF this, of st] assms show ?thesis
    by (auto simp: bookings_set_def)
next
  case (Inr p)
  then obtain c a where m: "bookingMails v env (bookingNumberOf env) bookingData (cancellationUrlOf v env) = Inr (c, a)"
    by (cases p) simp
  from book_ride_Inr [OF this, of st] assms have "c = customer" "a = admin"
    by (auto simp: bookings_set_def dispatch_def)
  with m show ?thesis by simp
qed

lemma Sub_formatted_customerHtml:
  "Sub (JStr formatted) \<in> set (customerHtml v bookingNumber bookingData formatted url)"
  by (simp add: Sub_in_template subs_customerHtml)

lemma Sub_formatted_adminHtml:
  "Sub (JStr formatted) \<in> set (adminHtml v bookingNumber bookingData formatted)"
  by (simp add: Sub_in_template subs_adminHtml)

section \<open>The cancellation handler, case by case\<close>

lemma ToString_sendMail [simp]: "ToString (env\<lparr>sendMail := f\<rparr>) x = ToString env x"
  by (cases x) simp_all

lemma template_sendMail [simp]: "template (env\<lparr>sendMail := f\<rparr>) ps = template env ps"
proof (induction ps)
  case Nil
  show ?case by simp
next
  case (Cons p ps)
  then show ?case by (cases p) (simp_all split: sum.splits)
qed

lemma cancelMails_sendMail [simp]: "cancelMails v (env\<lparr>sendMail := f\<rparr>) bk = cancelMails v env bk"
  by (simp add: cancelMails_def split: sum.splits)

lemma cancelMails_total:
  assumes "\<And>a. \<exists>s. stringOfOther env a = Inr s"
  shows "\<exists>customer admin. cancelMails v env bk = Inr (customer, admin)"
proof -
  from template_total [OF assms]
  obtain s1 where s1: "template env (customerCancelSubject v bk) = Inr s1" by blast
  from template_total [OF assms]
  obtain h1 where h1: "template env (customerCancelHtml v bk) = Inr h1" by blast
  from template_total [OF assms]
  obtain s2 where s2: "template env (adminCancelSubject v bk) = Inr s2" by blast
  from template_total [OF assms]
  obtain h2 where h2: "template env (adminCancelHtml v bk) = Inr h2" by blast
  show ?thesis by (simp add: cancelMails_def s1 h1 s2 h2)
qed

lemma cancelMails_page:
  assumes "cancelMails v env bk = Inr (customer, admin)"
  shows "\<exists>page. template env (successPage v bk) = Inr page"
proof -
  from assms have "\<exists>s. template env (customerCancelSubject v bk) = Inr s"
    by (auto simp: cancelMails_def split: sum.splits)
  then have "printable env (getProp bk ''bookingNumber'')"
    by (simp add: template_Inr_iff subs_customerCancelSubject)
  then show ?thesis
    by (simp add: template_Inr_iff subs_successPage)
qed

lemma begin_absent:
  assumes "\<not> bookings_has st tok"
  shows "cancel_ride_begin v env st tok = (st, Inl (notFound v))"
  using assms by (simp add: cancel_ride_begin_def)

lemma begin_throws:
  assumes "activeBookings st t = Some bk" and "cancelMails v env bk = Inl error"
  shows "cancel_ride_begin v env st (JStr t) = (st, Inl (cancelFailed v))"
  using assms by (simp add: cancel_ride_begin_def bookings_has_def bookings_get_def)

lemma begin_found:
  assumes "activeBookings st t = Some bk" and "cancelMails v env bk = Inr (customer, admin)"
  shows "cancel_ride_begin v env st (JStr t) =
           (dispatch st [customer, admin],
            Inr \<lparr>suspendedToken = JStr t, suspendedBooking = bk,
                 customerCancelMailOptions = customer, adminCancelMailOptions = admin\<rparr>)"
  using assms by (simp add: cancel_ride_begin_def bookings_has_def bookings_get_def)

lemma end_fulfilled:
  assumes "sendMail env customer = None" and "sendMail env admin = None"
    and "template env (successPage v bk) = Inr page"
  shows "cancel_ride_end v env st
           \<lparr>suspendedToken = tok, suspendedBooking = bk,
            customerCancelMailOptions = customer, adminCancelMailOptions = admin\<rparr>
         = (bookings_delete st tok, \<lparr>status = 200, body = Send page\<rparr>)"
  using assms by (simp add: cancel_ride_end_def)

lemma end_rejected:
  assumes "sendMail env customer \<noteq> None \<or> sendMail env admin \<noteq> None"
  shows "cancel_ride_end v env st
           \<lparr>suspendedToken = tok, suspendedBooking = bk,
            customerCancelMailOptions = customer, adminCancelMailOptions = admin\<rparr>
         = (st, cancelFailed v)"
  using assms by (auto simp: cancel_ride_end_def)

lemma cancel_ride_absent:
  assumes "\<not> bookings_has st tok"
  shows "cancel_ride v env st tok = (st, notFound v)"
  by (simp add: cancel_ride_def begin_absent [OF assms])

lemma cancel_ride_throws:
  assumes "activeBookings st t = Some bk" and "cancelMails v env bk = Inl error"
  shows "cancel_ride v env st (JStr t) = (st, cancelFailed v)"
  by (simp add: cancel_ride_def begin_throws [OF assms])

lemma cancel_ride_rejected:
  assumes "activeBookings st t = Some bk" and "cancelMails v env bk = Inr (customer, admin)"
    and "sendMail env customer \<noteq> None \<or> sendMail env admin \<noteq> None"
  shows "cancel_ride v env st (JStr t) = (dispatch st [customer, admin], cancelFailed v)"
  by (simp add: cancel_ride_def begin_found [OF assms(1,2)] end_rejected [OF assms(3)])

lemma cancel_ride_fulfilled:
  assumes "activeBookings st t = Some bk" and "cancelMails v env bk = Inr (customer, admin)"
    and "sendMail env customer = None" and "sendMail env admin = None"
  shows "\<exists>page. cancel_ride v env st (JStr t) =
           (bookings_delete (dispatch st [customer, admin]) (JStr t),
            \<lparr>status = 200, body = Send page\<rparr>)"
proof -
  from cancelMails_page [OF assms(2)]
  obtain page where "template env (successPage v bk) = Inr page" by blast
  from end_fulfilled [OF assms(3,4) this]
  show ?thesis by (simp add: cancel_ride_def begin_found [OF assms(1,2)])
qed

lemma dispatch_bookings [simp]: "activeBookings (dispatch st ms) = activeBookings st"
  by (simp add: dispatch_def)

lemma dispatch_outbox [simp]: "outbox (dispatch st ms) = outbox st @ ms"
  by (simp add: dispatch_def)

lemma delete_bookings [simp]:
  "activeBookings (bookings_delete st (JStr t)) = (activeBookings st)(t := None)"
  by (simp add: bookings_delete_def)

lemma delete_outbox [simp]: "outbox (bookings_delete st tok) = outbox st"
  by (cases tok) (simp_all add: bookings_delete_def)

lemma has_JStr: "bookings_has st (JStr t) \<longleftrightarrow> activeBookings st t \<noteq> None"
  by (simp add: bookings_has_def)

lemma has_JUndefined [simp]: "\<not> bookings_has st JUndefined"
  by (simp add: bookings_has_def)

lemma has_JOther [simp]: "\<not> bookings_has st (JOther a)"
  by (simp add: bookings_has_def)


text \<open>The outcomes of one cancellation of a token that is in the store.\<close>

lemma cancel_ride_present_cases:
  assumes "activeBookings st t = Some bk"
  obtains (throws) error where "cancelMails v env bk = Inl error"
      "cancel_ride v env st (JStr t) = (st, cancelFailed v)"
  | (rejected) customer admin where "cancelMails v env bk = Inr (customer, admin)"
      "sendMail env customer \<noteq> None \<or> sendMail env admin \<noteq> None"
      "cancel_ride v env st (JStr t) = (dispatch st [customer, admin], cancelFailed v)"
  | (fulfilled) customer admin page where "cancelMails v env bk = Inr (customer, admin)"
      "sendMail env customer = None" "sendMail env admin = None"
      "cancel_ride v env st (JStr t) =
         (bookings_delete (dispatch st [customer, admin]) (JStr t),
          \<lparr>status = 200, body = Send page\<rparr>)"
proof (cases "cancelMails v env bk")
  case (Inl error)
  from this cancel_ride_throws [OF assms this] show ?thesis by (rule throws)
next
  case (Inr p)
  then obtain customer admin where m: "cancelMails v env bk = Inr (customer, admin)"
    by (cases p) simp
  show ?thesis
  proof (cases "sendMail env customer = None \<and> sendMail env admin = None")
    case True
    then have a: "sendMail env customer = None" and b: "sendMail env admin = None"
      by simp_all
    from cancel_ride_fulfilled [OF assms m a b]
    obtain page where "cancel_ride v env st (JStr t) =
         (bookings_delete (dispatch st [customer, admin]) (JStr t),
          \<lparr>status = 200, body = Send page\<rparr>)"
      by blast
    from m a b this show ?thesis by (rule fulfilled)
  next
    case False
    then have "sendMail env customer \<noteq> None \<or> sendMail env admin \<noteq> None" by simp
    from m this cancel_ride_rejected [OF assms m this] show ?thesis by (rule rejected)
  qed
qed

lemma cancel_ride_200:
  assumes "cancel_ride v env st (JStr t) = (st', res)" and "status res = 200"
  shows "activeBookings st' t = None"
proof (cases "activeBookings st t")
  case None
  then have "\<not> bookings_has st (JStr t)" by (simp add: has_JStr)
  from cancel_ride_absent [OF this, of v env] assms(1) have "res = notFound v" by simp
  with assms(2) show ?thesis by (simp add: notFound_def)
next
  case (Some bk)
  then show ?thesis
  proof (cases rule: cancel_ride_present_cases [where v = v and env = env])
    case (throws error)
    from throws(2) assms(1) have "res = cancelFailed v" by simp
    with assms(2) show ?thesis by (simp add: cancelFailed_def)
  next
    case (rejected customer admin)
    from rejected(3) assms(1) have "res = cancelFailed v" by simp
    with assms(2) show ?thesis by (simp add: cancelFailed_def)
  next
    case (fulfilled customer admin page)
    from fulfilled(4) assms(1)
    have "st' = bookings_delete (dispatch st [customer, admin]) (JStr t)" by simp
    then show ?thesis by simp
  qed
qed

section \<open>Steps of a cancellation request\<close>

lemma step_arrived_found:
  assumes "activeBookings st t = Some bk" and "cancelMails v env bk = Inr (customer, admin)"
  shows "request_step v env st (Arrived (JStr t)) =
           (dispatch st [customer, admin],
            Suspended \<lparr>suspendedToken = JStr t, suspendedBooking = bk,
                       customerCancelMailOptions = customer, adminCancelMailOptions = admin\<rparr>)"
  by (simp add: request_step_def begin_found [OF assms])

lemma step_arrived_absent:
  assumes "activeBookings st t = None"
  shows "request_step v env st (Arrived (JStr t)) = (st, Answered (notFound v))"
proof -
  from assms have "\<not> bookings_has st (JStr t)" by (simp add: has_JStr)
  from begin_absent [OF this] show ?thesis by (simp add: request_step_def)
qed

lemma step_suspended_fulfilled:
  assumes "sendMail env customer = None" and "sendMail env admin = None"
    and "template env (successPage v bk) = Inr page"
  shows "request_step v env st
           (Suspended \<lparr>suspendedToken = tok, suspendedBooking = bk,
                       customerCancelMailOptions = customer, adminCancelMailOptions = admin\<rparr>)
         = (bookings_delete st tok, Answered \<lparr>status = 200, body = Send page\<rparr>)"
  by (simp add: request_step_def end_fulfilled [OF assms])

lemma step_answered: "request_step v env st (Answered res) = (st, Answered res)"
  by (simp add: request_step_def)

section \<open>The sample request\<close>

lemma sampleEnv_strings: "\<exists>s. stringOfOther (sampleEnv\<lparr>sendMail := f\<rparr>) a = Inr s"
  by (simp add: sampleEnv_def)

lemma sampleEnv_locale: "\<exists>s. localeOfOther (sampleEnv\<lparr>sendMail := f\<rparr>) a = Inr s"
  by (simp add: sampleEnv_def)

lemma sampleEnv_strings': "\<exists>s. stringOfOther sampleEnv a = Inr s"
  by (simp add: sampleEnv_def)

lemma sampleEnv_locale': "\<exists>s. localeOfOther sampleEnv a = Inr s"
  by (simp add: sampleEnv_def)

lemma sample_bookingNumber: "bookingNumberOf sampleEnv = ''TB200000007''"
  by (simp add: sampleEnv_def generateBookingNumber_def intToString_def sliceLast_def
      padStart_def numberToString.simps digitChar_simps replicate_pred_numeral)

lemma book_ride_sample:
  assumes "\<And>a. \<exists>s. stringOfOther env a = Inr s" and "\<And>a. \<exists>s. localeOfOther env a = Inr s"
    and "\<And>m. sendMail env m = None"
  shows "snd (book_ride v env st bookingData) = bookingConfirmed v (bookingNumberOf env)"
proof -
  from bookingMails_total [OF assms(1,2)]
  obtain customer admin where
    "bookingMails v env (bookingNumberOf env) bookingData (cancellationUrlOf v env)
       = Inr (customer, admin)"
    by blast
  from book_ride_Inr [OF this] show ?thesis by (simp add: assms(3))
qed

lemma sampleEnv_sends: "sendMail sampleEnv m = None"
  by (simp add: sampleEnv_def)

lemma sample_booked:
  "activeBookings (fst (book_ride English sampleEnv emptyState sampleBody)) (tokenOf sampleEnv)
     = Some (recordOf sampleEnv sampleBody)"
  by (simp add: book_ride_store)

lemma sampleEnv_restored: "sampleEnv\<lparr>sendMail := f\<rparr>\<lparr>sendMail := \<lambda>m. None\<rparr> = sampleEnv"
  by (simp add: sampleEnv_def)

lemma sample_cancelled:
  "\<exists>customer admin page.
     cancel_ride English sampleEnv (fst (book_ride English sampleEnv emptyState sampleBody))
       (JStr (tokenOf sampleEnv))
     = (bookings_delete
          (dispatch (fst (book_ride English sampleEnv emptyState sampleBody)) [customer, admin])
          (JStr (tokenOf sampleEnv)),
        \<lparr>status = 200, body = Send page\<rparr>)"
proof -
  from cancelMails_total [OF sampleEnv_strings']
  obtain customer admin where
    "cancelMails English sampleEnv (recordOf sampleEnv sampleBody) = Inr (customer, admin)"
    by blast
  from cancel_ride_fulfilled [OF sample_booked this sampleEnv_sends sampleEnv_sends]
  show ?thesis by blast
qed

section \<open>The display of the requested time\<close>

text \<open>
  C1, as the code has it. When the booking handler has built and dispatched its two
  mails, the display of the requested time is the locale rendering of \<open>dateTime\<close> if the
  submitted type is the string \<open>Scheduled Ride\<close> (\<open>Geplante Fahrt\<close> in the German server)
  and \<open>dateTime\<close> is not \<open>As soon as possible\<close>, and the phrase \<open>As soon as possible\<close>
  (\<open>Sofort\<close>) in every other case, the type \<open>scheduled\<close> included; both mails contain
  that display.
\<close>

theorem requested_time_display:
  assumes "book_ride v env st bookingData = (st', res)"
    and "outbox st' = outbox st @ [customer, admin]"
  shows "\<exists>display.
           formattedDateTime v env bookingData = Inr display
           \<and> Inr display =
               (if getProp bookingData ''type'' = JStr (scheduledRide v)
                   \<and> getProp bookingData ''dateTime'' \<noteq> JStr ''As soon as possible''
                then toLocaleString env (getProp bookingData ''dateTime'')
                else Inr (immediately v))
           \<and> (getProp bookingData ''type'' = JStr ''scheduled'' \<longrightarrow> display = immediately v)
           \<and> sublist display (html customer)
           \<and> sublist display (html admin)"
proof -
  from book_ride_outbox [OF assms]
  have "bookingMails v env (bookingNumberOf env) bookingData (cancellationUrlOf v env)
          = Inr (customer, admin)" .
  from bookingMails_Inr [OF this]
  obtain f where f: "formattedDateTime v env bookingData = Inr f"
    and c: "template env (customerHtml v (bookingNumberOf env) bookingData f (cancellationUrlOf v env))
              = Inr (html customer)"
    and a: "template env (adminHtml v (bookingNumberOf env) bookingData f) = Inr (html admin)"
    by blast
  have "sublist f (html customer)"
    by (rule template_sublist [OF c Sub_formatted_customerHtml]) simp
  moreover have "sublist f (html admin)"
    by (rule template_sublist [OF a Sub_formatted_adminHtml]) simp
  moreover have "Inr f =
               (if getProp bookingData ''type'' = JStr (scheduledRide v)
                   \<and> getProp bookingData ''dateTime'' \<noteq> JStr ''As soon as possible''
                then toLocaleString env (getProp bookingData ''dateTime'')
                else Inr (immediately v))"
    using f by (simp add: formattedDateTime_def)
  moreover have "f = immediately v" if "getProp bookingData ''type'' = JStr ''scheduled''"
    using f that by (cases v) (simp_all add: formattedDateTime_def)
  ultimately show ?thesis using f by blast
qed

theorem requested_time_display_witness:
  "(\<exists>customer admin.
      outbox (fst (book_ride English sampleEnv emptyState sampleBody)) = [customer, admin]
      \<and> sublist ''Saturday, March 1, 2025 at 10:00 AM'' (html customer))
   \<and> (\<exists>customer admin.
      outbox (fst (book_ride English sampleEnv emptyState (sampleBody(''type'' \<mapsto> JStr ''scheduled''))))
        = [customer, admin]
      \<and> sublist ''As soon as possible'' (html customer))"
proof -
  have d: "\<exists>customer admin display.
         outbox (fst (book_ride English sampleEnv emptyState b)) = [customer, admin]
         \<and> Inr display =
               (if getProp b ''type'' = JStr (scheduledRide English)
                   \<and> getProp b ''dateTime'' \<noteq> JStr ''As soon as possible''
                then toLocaleString sampleEnv (getProp b ''dateTime'')
                else Inr (immediately English))
         \<and> sublist display (html customer)" for b
  proof -
    from bookingMails_total [OF sampleEnv_strings' sampleEnv_locale']
    obtain customer admin where
      "bookingMails English sampleEnv (bookingNumberOf sampleEnv) b (cancellationUrlOf English sampleEnv)
         = Inr (customer, admin)"
      by blast
    from book_ride_Inr [OF this, of emptyState]
    have o: "outbox (fst (book_ride English sampleEnv emptyState b)) = outbox emptyState @ [customer, admin]"
      by (simp add: dispatch_def bookings_set_def)
    from requested_time_display [OF surjective_pairing o] o
    show ?thesis by (auto simp: emptyState_def)
  qed
  have t: "getProp sampleBody ''type'' = JStr ''Scheduled Ride''"
    "getProp sampleBody ''dateTime'' = JStr ''2025-03-01T10:00:00Z''"
    "getProp (sampleBody(''type'' \<mapsto> JStr ''scheduled'')) ''type'' = JStr ''scheduled''"
    by (simp_all add: getProp_def sampleBody_def)
  have l: "toLocaleString sampleEnv (JStr ''2025-03-01T10:00:00Z'')
             = Inr ''Saturday, March 1, 2025 at 10:00 AM''"
    by (simp add: toLocaleString_def sampleEnv_def)
  from d [of sampleBody] d [of "sampleBody(''type'' \<mapsto> JStr ''scheduled'')"]
  show ?thesis
    by (simp add: t l)
qed

text \<open>
  C1 as stated fails: a booking of type \<open>scheduled\<close> for \<open>2025-03-01T10:00:00Z\<close> is shown
  the phrase for an immediate ride, not the rendering of its date, in both servers.
\<close>

theorem requested_time_display_counterexample:
  "formattedDateTime English sampleEnv
     [''type'' \<mapsto> JStr ''scheduled'', ''dateTime'' \<mapsto> JStr ''2025-03-01T10:00:00Z'']
     = Inr ''As soon as possible''
   \<and> formattedDateTime German sampleEnv
     [''type'' \<mapsto> JStr ''scheduled'', ''dateTime'' \<mapsto> JStr ''2025-03-01T10:00:00Z'']
     = Inr ''Sofort''
   \<and> toLocaleString sampleEnv (JStr ''2025-03-01T10:00:00Z'')
     = Inr ''Saturday, March 1, 2025 at 10:00 AM''"
  by (simp add: formattedDateTime_def getProp_def toLocaleString_def sampleEnv_def)

section \<open>Deleting after sending\<close>

text \<open>
  C2. For a token that is in the store, the record is gone after the cancellation handler
  only if both cancellation mails were built, handed to the transport and accepted, and
  then the response is the confirmation page. When the mails were built and a send is
  rejected, the response is the fixed 500 text and the store is as before, so that the
  same request, repeated once the transport accepts the mails, succeeds and removes the
  record.
\<close>

theorem cancel_ride_deletes_after_sending:
  assumes "activeBookings st t = Some bk"
  shows "(activeBookings (fst (cancel_ride v env st (JStr t))) t = None \<longrightarrow>
            (\<exists>customer admin page.
               cancelMails v env bk = Inr (customer, admin)
               \<and> sendMail env customer = None \<and> sendMail env admin = None
               \<and> cancel_ride v env st (JStr t) =
                   (bookings_delete (dispatch st [customer, admin]) (JStr t),
                    \<lparr>status = 200, body = Send page\<rparr>)))
         \<and> (\<forall>customer admin.
               cancelMails v env bk = Inr (customer, admin)
               \<and> (sendMail env customer \<noteq> None \<or> sendMail env admin \<noteq> None) \<longrightarrow>
               cancel_ride v env st (JStr t) =
                 (dispatch st [customer, admin],
                  \<lparr>status = 500, body = Send (cancelFailedMessage v)\<rparr>)
               \<and> activeBookings (dispatch st [customer, admin]) = activeBookings st
               \<and> bookings_has (dispatch st [customer, admin]) (JStr t)
               \<and> (\<exists>page.
                     cancel_ride v (env\<lparr>sendMail := \<lambda>m. None\<rparr>)
                       (dispatch st [customer, admin]) (JStr t) =
                       (bookings_delete
                          (dispatch (dispatch st [customer, admin]) [customer, admin]) (JStr t),
                        \<lparr>status = 200, body = Send page\<rparr>)))"
proof (intro conjI impI allI)
  assume gone: "activeBookings (fst (cancel_ride v env st (JStr t))) t = None"
  from assms show "\<exists>customer admin page.
               cancelMails v env bk = Inr (customer, admin)
               \<and> sendMail env customer = None \<and> sendMail env admin = None
               \<and> cancel_ride v env st (JStr t) =
                   (bookings_delete (dispatch st [customer, admin]) (JStr t),
                    \<lparr>status = 200, body = Send page\<rparr>)"
  proof (cases rule: cancel_ride_present_cases [where v = v and env = env])
    case (throws error)
    with gone assms show ?thesis by simp
  next
    case (rejected customer admin)
    with gone assms show ?thesis by simp
  next
    case (fulfilled customer admin page)
    then show ?thesis by blast
  qed
next
  fix customer admin
  assume a: "cancelMails v env bk = Inr (customer, admin)
             \<and> (sendMail env customer \<noteq> None \<or> sendMail env admin \<noteq> None)"
  then have m: "cancelMails v env bk = Inr (customer, admin)"
    and r: "sendMail env customer \<noteq> None \<or> sendMail env admin \<noteq> None"
    by simp_all
  from cancel_ride_rejected [OF assms m r]
  show "cancel_ride v env st (JStr t) =
          (dispatch st [customer, admin], \<lparr>status = 500, body = Send (cancelFailedMessage v)\<rparr>)"
    by (simp add: cancelFailed_def)
  show "activeBookings (dispatch st [customer, admin]) = activeBookings st"
    by simp
  show "bookings_has (dispatch st [customer, admin]) (JStr t)"
    using assms by (simp add: has_JStr)
  have p: "activeBookings (dispatch st [customer, admin]) t = Some bk"
    using assms by simp
  have m': "cancelMails v (env\<lparr>sendMail := \<lambda>m. None\<rparr>) bk = Inr (customer, admin)"
    using m by simp
  show "\<exists>page. cancel_ride v (env\<lparr>sendMail := \<lambda>m. None\<rparr>)
                  (dispatch st [customer, admin]) (JStr t) =
                (bookings_delete
                   (dispatch (dispatch st [customer, admin]) [customer, admin]) (JStr t),
                 \<lparr>status = 200, body = Send page\<rparr>)"
    by (rule cancel_ride_fulfilled [OF p m']) simp_all
qed

theorem cancel_ride_deletes_after_sending_witness:
  "snd (cancel_ride English (sampleEnv\<lparr>sendMail := \<lambda>m. Some (JsError ''Invalid login'')\<rparr>)
          (fst (book_ride English sampleEnv emptyState sampleBody)) (JStr (tokenOf sampleEnv)))
     = \<lparr>status = 500,
        body = Send ''Failed to cancel booking. Please try again or contact support.''\<rparr>
   \<and> activeBookings
        (fst (cancel_ride English (sampleEnv\<lparr>sendMail := \<lambda>m. Some (JsError ''Invalid login'')\<rparr>)
                (fst (book_ride English sampleEnv emptyState sampleBody))
                (JStr (tokenOf sampleEnv))))
        (tokenOf sampleEnv)
     = Some (recordOf sampleEnv sampleBody)
   \<and> status (snd (cancel_ride English sampleEnv
        (fst (cancel_ride English (sampleEnv\<lparr>sendMail := \<lambda>m. Some (JsError ''Invalid login'')\<rparr>)
                (fst (book_ride English sampleEnv emptyState sampleBody))
                (JStr (tokenOf sampleEnv))))
        (JStr (tokenOf sampleEnv)))) = 200
   \<and> activeBookings (fst (cancel_ride English sampleEnv
        (fst (cancel_ride English (sampleEnv\<lparr>sendMail := \<lambda>m. Some (JsError ''Invalid login'')\<rparr>)
                (fst (book_ride English sampleEnv emptyState sampleBody))
                (JStr (tokenOf sampleEnv))))
        (JStr (tokenOf sampleEnv)))) (tokenOf sampleEnv) = None"
proof -
  let ?e = "sampleEnv\<lparr>sendMail := \<lambda>m. Some (JsError ''Invalid login'')\<rparr>"
  let ?st = "fst (book_ride English sampleEnv emptyState sampleBody)"
  let ?t = "tokenOf sampleEnv"
  let ?bk = "recordOf sampleEnv sampleBody"
  from cancelMails_total [OF sampleEnv_strings]
  obtain customer admin where m: "cancelMails English ?e ?bk = Inr (customer, admin)"
    by blast
  have r: "sendMail ?e customer \<noteq> None \<or> sendMail ?e admin \<noteq> None" by simp
  from cancel_ride_deletes_after_sending [OF sample_booked, of English ?e] m r
  obtain page where
    1: "cancel_ride English ?e ?st (JStr ?t) =
          (dispatch ?st [customer, admin],
           \<lparr>status = 500, body = Send (cancelFailedMessage English)\<rparr>)"
    and 2: "cancel_ride English (?e\<lparr>sendMail := \<lambda>m. None\<rparr>) (dispatch ?st [customer, admin]) (JStr ?t)
          = (bookings_delete (dispatch (dispatch ?st [customer, admin]) [customer, admin]) (JStr ?t),
             \<lparr>status = 200, body = Send page\<rparr>)"
    by blast
  show ?thesis
    using 2 by (simp add: 1 sampleEnv_restored sample_booked)
qed

section \<open>Persisting before sending\<close>

text \<open>
  C3. The booking handler writes the record into the store under the cancellation token,
  with the server's own timestamp, whatever happens afterwards. When the two mails have
  been built and a send fails, both mails were handed to the transport from the state
  that already holds the record, the response is the generic 500 failure with
  \<open>success: false\<close>, and the record stays in the store.
\<close>

theorem book_ride_persists_before_sending:
  "activeBookings (fst (book_ride v env st bookingData)) =
     (activeBookings st)(tokenOf env \<mapsto> recordOf env bookingData)
   \<and> recordOf env bookingData ''timestamp'' = Some (JStr (toISOString env))
   \<and> (\<forall>customer admin.
         bookingMails v env (bookingNumberOf env) bookingData (cancellationUrlOf v env)
           = Inr (customer, admin)
         \<and> (sendMail env customer \<noteq> None \<or> sendMail env admin \<noteq> None)
         \<longrightarrow> book_ride v env st bookingData =
               (dispatch (bookings_set st (tokenOf env) (recordOf env bookingData))
                  [customer, admin],
                \<lparr>status = 500,
                 body = Json [(''success'', JsonBool False),
                              (''error'', JsonString (bookingFailedMessage v))]\<rparr>))"
proof (intro conjI allI impI)
  show "activeBookings (fst (book_ride v env st bookingData)) =
          (activeBookings st)(tokenOf env \<mapsto> recordOf env bookingData)"
    by (rule book_ride_store)
  show "recordOf env bookingData ''timestamp'' = Some (JStr (toISOString env))"
    by (rule bookingRecord_timestamp)
next
  fix customer admin
  assume a: "bookingMails v env (bookingNumberOf env) bookingData (cancellationUrlOf v env)
               = Inr (customer, admin)
             \<and> (sendMail env customer \<noteq> None \<or> sendMail env admin \<noteq> None)"
  then have "\<not> (sendMail env customer = None \<and> sendMail env admin = None)" by blast
  with book_ride_Inr [of v env bookingData customer admin st] a
  show "book_ride v env st bookingData =
          (dispatch (bookings_set st (tokenOf env) (recordOf env bookingData)) [customer, admin],
           \<lparr>status = 500,
            body = Json [(''success'', JsonBool False),
                         (''error'', JsonString (bookingFailedMessage v))]\<rparr>)"
    by (simp add: bookingFailed_def)
qed

theorem book_ride_persists_before_sending_witness:
  "activeBookings
     (fst (book_ride English (sampleEnv\<lparr>sendMail := \<lambda>m. Some (JsError ''Invalid login'')\<rparr>)
             emptyState sampleBody))
     (tokenOf sampleEnv)
     = Some (recordOf sampleEnv sampleBody)
   \<and> snd (book_ride English (sampleEnv\<lparr>sendMail := \<lambda>m. Some (JsError ''Invalid login'')\<rparr>)
             emptyState sampleBody)
     = \<lparr>status = 500,
        body = Json [(''success'', JsonBool False),
                     (''error'', JsonString ''Failed to process booking. Please try again.'')]\<rparr>
   \<and> length (outbox
        (fst (book_ride English (sampleEnv\<lparr>sendMail := \<lambda>m. Some (JsError ''Invalid login'')\<rparr>)
                emptyState sampleBody))) = 2"
proof -
  let ?env = "sampleEnv\<lparr>sendMail := \<lambda>m. Some (JsError ''Invalid login'')\<rparr>"
  have same: "tokenOf ?env = tokenOf sampleEnv" "recordOf ?env sampleBody = recordOf sampleEnv sampleBody"
    by simp_all
  from bookingMails_total [OF sampleEnv_strings sampleEnv_locale]
  obtain customer admin where m:
    "bookingMails English ?env (bookingNumberOf ?env) sampleBody (cancellationUrlOf English ?env)
       = Inr (customer, admin)"
    by blast
  have f: "sendMail ?env customer \<noteq> None \<or> sendMail ?env admin \<noteq> None" by simp
  from book_ride_persists_before_sending [of English ?env emptyState sampleBody] m f
  have "activeBookings (fst (book_ride English ?env emptyState sampleBody)) =
          (activeBookings emptyState)(tokenOf ?env \<mapsto> recordOf ?env sampleBody)"
    and "book_ride English ?env emptyState sampleBody =
          (dispatch (bookings_set emptyState (tokenOf ?env) (recordOf ?env sampleBody))
             [customer, admin],
           \<lparr>status = 500,
            body = Json [(''success'', JsonBool False),
                         (''error'', JsonString (bookingFailedMessage English))]\<rparr>)"
    by blast+
  then show ?thesis
    by (simp add: same dispatch_def bookings_set_def emptyState_def)
qed

section \<open>Unknown tokens\<close>

text \<open>
  C4. A token that is not in the store (a string that is no key, or no string at all, as
  when the query has no \<open>token\<close>) gets the fixed 404 response; the state, store and sent
  mails, is unchanged, so that repeating the request gives the same response again. A
  token whose booking was cancelled before gets this very response.
\<close>

theorem cancel_ride_unknown_token:
  assumes "\<not> bookings_has st tok"
  shows "cancel_ride v env st tok = (st, \<lparr>status = 404, body = Send (notFoundMessage v)\<rparr>)
         \<and> cancel_ride v env' (fst (cancel_ride v env st tok)) tok
             = (st, \<lparr>status = 404, body = Send (notFoundMessage v)\<rparr>)
         \<and> cancel_ride v env st JUndefined
             = (st, \<lparr>status = 404, body = Send (notFoundMessage v)\<rparr>)
         \<and> (\<forall>t st0 env0 res0.
               cancel_ride v env0 st0 (JStr t) = (st, res0) \<and> status res0 = 200 \<longrightarrow>
               cancel_ride v env st (JStr t)
                 = (st, \<lparr>status = 404, body = Send (notFoundMessage v)\<rparr>))"
proof (intro conjI allI impI)
  from cancel_ride_absent [OF assms]
  show 1: "cancel_ride v env st tok = (st, \<lparr>status = 404, body = Send (notFoundMessage v)\<rparr>)"
    by (simp add: notFound_def)
  from cancel_ride_absent [OF assms, of v env']
  show "cancel_ride v env' (fst (cancel_ride v env st tok)) tok
          = (st, \<lparr>status = 404, body = Send (notFoundMessage v)\<rparr>)"
    by (simp add: 1 notFound_def)
  show "cancel_ride v env st JUndefined
          = (st, \<lparr>status = 404, body = Send (notFoundMessage v)\<rparr>)"
    by (simp add: cancel_ride_absent notFound_def)
next
  fix t st0 env0 res0
  assume "cancel_ride v env0 st0 (JStr t) = (st, res0) \<and> status res0 = 200"
  then have "activeBookings st t = None" by (blast intro: cancel_ride_200)
  then have "\<not> bookings_has st (JStr t)" by (simp add: has_JStr)
  from cancel_ride_absent [OF this]
  show "cancel_ride v env st (JStr t) = (st, \<lparr>status = 404, body = Send (notFoundMessage v)\<rparr>)"
    by (simp add: notFound_def)
qed

theorem cancel_ride_unknown_token_witness:
  "cancel_ride English sampleEnv emptyState (JStr ''deadbeef'')
     = (emptyState, \<lparr>status = 404, body = Send ''Booking not found or already cancelled.''\<rparr>)
   \<and> cancel_ride English sampleEnv emptyState JUndefined
     = (emptyState, \<lparr>status = 404, body = Send ''Booking not found or already cancelled.''\<rparr>)
   \<and> status (snd (cancel_ride English sampleEnv
                     (fst (book_ride English sampleEnv emptyState sampleBody))
                     (JStr (tokenOf sampleEnv)))) = 200
   \<and> snd (cancel_ride English sampleEnv
            (fst (cancel_ride English sampleEnv
                    (fst (book_ride English sampleEnv emptyState sampleBody))
                    (JStr (tokenOf sampleEnv))))
            (JStr (tokenOf sampleEnv)))
     = \<lparr>status = 404, body = Send ''Booking not found or already cancelled.''\<rparr>"
proof -
  let ?st1 = "fst (book_ride English sampleEnv emptyState sampleBody)"
  let ?c = "cancel_ride English sampleEnv ?st1 (JStr (tokenOf sampleEnv))"
  have a: "\<not> bookings_has emptyState (JStr ''deadbeef'')"
    by (simp add: has_JStr emptyState_def)
  from sample_cancelled have ok: "status (snd ?c) = 200" by auto
  have c: "cancel_ride English sampleEnv ?st1 (JStr (tokenOf sampleEnv)) = (fst ?c, snd ?c)"
    by simp
  from cancel_ride_200 [OF c ok]
  have b: "\<not> bookings_has (fst ?c) (JStr (tokenOf sampleEnv))" by (simp add: has_JStr)
  from cancel_ride_unknown_token [OF a, of English sampleEnv sampleEnv]
  have 1: "cancel_ride English sampleEnv emptyState (JStr ''deadbeef'')
             = (emptyState, \<lparr>status = 404, body = Send (notFoundMessage English)\<rparr>)"
    and 2: "cancel_ride English sampleEnv emptyState JUndefined
             = (emptyState, \<lparr>status = 404, body = Send (notFoundMessage English)\<rparr>)"
    by simp_all
  from cancel_ride_unknown_token [OF b, of English sampleEnv sampleEnv] c ok
  have 3: "cancel_ride English sampleEnv (fst ?c) (JStr (tokenOf sampleEnv))
             = (fst ?c, \<lparr>status = 404, body = Send (notFoundMessage English)\<rparr>)"
    by blast
  show ?thesis by (simp add: 1 2 3 ok)
qed

section \<open>Booking, then cancelling\<close>

text \<open>
  C5. After a successful booking the store holds a record under the generated token.
  When a cancellation with that token then succeeds, the store holds no record under
  the token any more, and a further cancellation with the token gets the 404 response
  and changes nothing.
\<close>

theorem book_then_cancel:
  assumes "book_ride v env st bookingData = (st1, res1)" and "status res1 = 200"
    and "cancel_ride v env2 st1 (JStr (tokenOf env)) = (st2, res2)" and "status res2 = 200"
  shows "bookings_has st1 (JStr (tokenOf env))
         \<and> bookings_get st1 (JStr (tokenOf env)) = Some (recordOf env bookingData)
         \<and> \<not> bookings_has st2 (JStr (tokenOf env))
         \<and> cancel_ride v env3 st2 (JStr (tokenOf env))
             = (st2, \<lparr>status = 404, body = Send (notFoundMessage v)\<rparr>)"
proof -
  from book_ride_store [of v env st bookingData] assms(1)
  have s: "activeBookings st1 (tokenOf env) = Some (recordOf env bookingData)" by simp
  from cancel_ride_200 [OF assms(3,4)]
  have n: "\<not> bookings_has st2 (JStr (tokenOf env))" by (simp add: has_JStr)
  from cancel_ride_absent [OF n]
  have "cancel_ride v env3 st2 (JStr (tokenOf env))
          = (st2, \<lparr>status = 404, body = Send (notFoundMessage v)\<rparr>)"
    by (simp add: notFound_def)
  with s n show ?thesis by (simp add: has_JStr bookings_get_def)
qed

theorem book_then_cancel_witness:
  "status (snd (book_ride English sampleEnv emptyState sampleBody)) = 200
   \<and> bookings_has (fst (book_ride English sampleEnv emptyState sampleBody))
        (JStr (tokenOf sampleEnv))
   \<and> status (snd (cancel_ride English sampleEnv
                     (fst (book_ride English sampleEnv emptyState sampleBody))
                     (JStr (tokenOf sampleEnv)))) = 200
   \<and> \<not> bookings_has
          (fst (cancel_ride English sampleEnv
                  (fst (book_ride English sampleEnv emptyState sampleBody))
                  (JStr (tokenOf sampleEnv))))
          (JStr (tokenOf sampleEnv))
   \<and> status (snd (cancel_ride English sampleEnv
            (fst (cancel_ride English sampleEnv
                    (fst (book_ride English sampleEnv emptyState sampleBody))
                    (JStr (tokenOf sampleEnv))))
            (JStr (tokenOf sampleEnv)))) = 404"
proof -
  let ?b = "book_ride English sampleEnv emptyState sampleBody"
  let ?c = "cancel_ride English sampleEnv (fst ?b) (JStr (tokenOf sampleEnv))"
  have r: "snd ?b = bookingConfirmed English (bookingNumberOf sampleEnv)"
    by (rule book_ride_sample [OF sampleEnv_strings' sampleEnv_locale' sampleEnv_sends])
  then have ok1: "status (snd ?b) = 200" by (simp add: bookingConfirmed_def)
  from sample_cancelled have ok2: "status (snd ?c) = 200" by auto
  have b: "book_ride English sampleEnv emptyState sampleBody = (fst ?b, snd ?b)" by simp
  have c: "cancel_ride English sampleEnv (fst ?b) (JStr (tokenOf sampleEnv)) = (fst ?c, snd ?c)"
    by simp
  from book_then_cancel [OF b ok1 c ok2, of sampleEnv]
  show ?thesis by (simp add: ok1 ok2)
qed

section \<open>Two cancellation requests at once\<close>

text \<open>
  C6, as the code has it. Two cancellation requests for a token in the store, with mails
  that can be built and a transport that accepts them, are both answered, and the store
  holds no record for the token afterwards. One request succeeds and the other gets the
  404 response only when the first has finished before the second starts. When the
  second starts while the first is suspended at its \<open>await\<close>, both find the record, the
  mails are sent twice, and both requests get the confirmation page.
\<close>

theorem two_cancellations:
  assumes "activeBookings st t = Some bk" and "cancelMails v env bk = Inr (customer, admin)"
    and "sendMail env customer = None" and "sendMail env admin = None"
    and "sch \<in> set schedules"
  shows "\<exists>st' res1 res2.
           run_two v env sch (st, Arrived (JStr t), Arrived (JStr t))
             = (st', Answered res1, Answered res2)
           \<and> activeBookings st' t = None
           \<and> (if sch = [False, False, True, True]
               then status res1 = 200 \<and> res2 = notFound v
                    \<and> outbox st' = outbox st @ [customer, admin]
               else if sch = [True, True, False, False]
               then res1 = notFound v \<and> status res2 = 200
                    \<and> outbox st' = outbox st @ [customer, admin]
               else status res1 = 200 \<and> status res2 = 200
                    \<and> outbox st' = outbox st @ [customer, admin, customer, admin])"
proof -
  from cancelMails_page [OF assms(2)]
  obtain page where page: "template env (successPage v bk) = Inr page" by blast
  note fulfilled = step_suspended_fulfilled [OF assms(3,4) page]
  have found: "request_step v env s (Arrived (JStr t)) =
           (dispatch s [customer, admin],
            Suspended \<lparr>suspendedToken = JStr t, suspendedBooking = bk,
                       customerCancelMailOptions = customer, adminCancelMailOptions = admin\<rparr>)"
    if "activeBookings s t = Some bk" for s
    using that assms(2) by (rule step_arrived_found)
  have p1: "activeBookings (dispatch st [customer, admin]) t = Some bk"
    using assms(1) by simp
  have a1: "activeBookings (bookings_delete (dispatch st [customer, admin]) (JStr t)) t = None"
    by simp
  from assms(5) consider
      "sch = [False, False, True, True]" | "sch = [False, True, False, True]"
    | "sch = [False, True, True, False]" | "sch = [True, False, False, True]"
    | "sch = [True, False, True, False]" | "sch = [True, True, False, False]"
    by (auto simp: schedules_def)
  then show ?thesis
  proof cases
    case 1
    then show ?thesis
      by (simp add: found [OF assms(1)] fulfilled step_arrived_absent [OF a1] step_answered)
  next
    case 2
    then show ?thesis
      by (simp add: found [OF assms(1)] found [OF p1] fulfilled)
  next
    case 3
    then show ?thesis
      by (simp add: found [OF assms(1)] found [OF p1] fulfilled)
  next
    case 4
    then show ?thesis
      by (simp add: found [OF assms(1)] found [OF p1] fulfilled)
  next
    case 5
    then show ?thesis
      by (simp add: found [OF assms(1)] found [OF p1] fulfilled)
  next
    case 6
    then show ?thesis
      by (simp add: found [OF assms(1)] fulfilled step_arrived_absent [OF a1] step_answered)
  qed
qed


theorem two_cancellations_witness:
  "(\<exists>st' res1 res2.
      run_two English sampleEnv [False, False, True, True]
        (fst (book_ride English sampleEnv emptyState sampleBody),
         Arrived (JStr (tokenOf sampleEnv)), Arrived (JStr (tokenOf sampleEnv)))
        = (st', Answered res1, Answered res2)
      \<and> activeBookings st' (tokenOf sampleEnv) = None
      \<and> status res1 = 200 \<and> status res2 = 404)
   \<and> (\<exists>st' res1 res2.
      run_two English sampleEnv [False, True, True, False]
        (fst (book_ride English sampleEnv emptyState sampleBody),
         Arrived (JStr (tokenOf sampleEnv)), Arrived (JStr (tokenOf sampleEnv)))
        = (st', Answered res1, Answered res2)
      \<and> activeBookings st' (tokenOf sampleEnv) = None
      \<and> status res1 = 200 \<and> status res2 = 200)"
proof -
  from cancelMails_total [OF sampleEnv_strings']
  obtain customer admin where
    m: "cancelMails English sampleEnv (recordOf sampleEnv sampleBody) = Inr (customer, admin)"
    by blast
  have 1: "[False, False, True, True] \<in> set schedules"
    and 2: "[False, True, True, False] \<in> set schedules"
    by (simp_all add: schedules_def)
  let ?st = "fst (book_ride English sampleEnv emptyState sampleBody)"
  let ?r = "Arrived (JStr (tokenOf sampleEnv)) :: unit request"
  from two_cancellations [OF sample_booked m sampleEnv_sends sampleEnv_sends 1]
  obtain st' res1 res2 where
    "run_two English sampleEnv [False, False, True, True] (?st, ?r, ?r)
       = (st', Answered res1, Answered res2)"
    "activeBookings st' (tokenOf sampleEnv) = None"
    "status res1 = 200" "res2 = notFound English"
    by (simp del: run_two.simps) blast
  then have a: "\<exists>st' res1 res2.
      run_two English sampleEnv [False, False, True, True] (?st, ?r, ?r)
        = (st', Answered res1, Answered res2)
      \<and> activeBookings st' (tokenOf sampleEnv) = None
      \<and> status res1 = 200 \<and> status res2 = 404"
    by (simp del: run_two.simps add: notFound_def)
  from two_cancellations [OF sample_booked m sampleEnv_sends sampleEnv_sends 2]
  obtain st'' res1' res2' where
    "run_two English sampleEnv [False, True, True, False] (?st, ?r, ?r)
       = (st'', Answered res1', Answered res2')"
    "activeBookings st'' (tokenOf sampleEnv) = None"
    "status res1' = 200" "status res2' = 200"
    by (simp del: run_two.simps) blast
  then have b: "\<exists>st' res1 res2.
      run_two English sampleEnv [False, True, True, False] (?st, ?r, ?r)
        = (st', Answered res1, Answered res2)
      \<and> activeBookings st' (tokenOf sampleEnv) = None
      \<and> status res1 = 200 \<and> status res2 = 200"
    by (simp del: run_two.simps)
  from a b show ?thesis by (rule conjI)
qed

text \<open>
  C6 as stated fails: when the second request starts while the first awaits its mails,
  both requests are answered with the confirmation page and the cancellation mails are
  sent twice.
\<close>

theorem two_cancellations_counterexample:
  "\<exists>st' res1 res2.
     run_two English sampleEnv [False, True, False, True]
       (fst (book_ride English sampleEnv emptyState sampleBody),
        Arrived (JStr (tokenOf sampleEnv)), Arrived (JStr (tokenOf sampleEnv)))
       = (st', Answered res1, Answered res2)
     \<and> status res1 = 200 \<and> status res2 = 200
     \<and> length (outbox st')
         = length (outbox (fst (book_ride English sampleEnv emptyState sampleBody))) + 4"
proof -
  let ?st = "fst (book_ride English sampleEnv emptyState sampleBody)"
  from cancelMails_total [OF sampleEnv_strings']
  obtain customer admin where
    m: "cancelMails English sampleEnv (recordOf sampleEnv sampleBody) = Inr (customer, admin)"
    by blast
  from cancelMails_page [OF m]
  obtain page where
    page: "template sampleEnv (successPage English (recordOf sampleEnv sampleBody)) = Inr page"
    by blast
  have p: "activeBookings (dispatch ?st [customer, admin]) (tokenOf sampleEnv)
             = Some (recordOf sampleEnv sampleBody)"
    using sample_booked by simp
  show ?thesis
    by (simp add: step_arrived_found [OF sample_booked m] step_arrived_found [OF p m]
        step_suspended_fulfilled [OF sampleEnv_sends sampleEnv_sends page])
qed

section \<open>The pattern of booking numbers\<close>

text \<open>
  C8. With a clock that reads at least 100000 milliseconds since the epoch (any instant
  after the first 100 seconds of 1970) and the random integer below 1000, a booking
  number is \<open>TB\<close>, then the last six decimal digits of the clock reading, then the random
  integer as three digits with leading zeros: eleven characters, nine of them decimal
  digits. A successful booking response carries exactly this number.
\<close>

theorem generateBookingNumber_pattern:
  assumes "100000 \<le> dateNow env" and "randomThousand env < 1000"
  shows "bookingNumberOf env =
           ''TB'' @ lastDigits 6 (nat (dateNow env)) @ lastDigits 3 (randomThousand env)
         \<and> lastDigits 6 (nat (dateNow env)) = lastDigits 6 (nat (dateNow env) mod 10 ^ 6)
         \<and> length (lastDigits 6 (nat (dateNow env))) = 6
         \<and> length (lastDigits 3 (randomThousand env)) = 3
         \<and> set (lastDigits 6 (nat (dateNow env)) @ lastDigits 3 (randomThousand env))
              \<subseteq> set decimalDigits
         \<and> length (bookingNumberOf env) = 11
         \<and> (status (snd (book_ride v env st bookingData)) = 200 \<longrightarrow>
              body (snd (book_ride v env st bookingData)) =
                Json [(''success'', JsonBool True),
                      (''message'', JsonString (bookingConfirmedMessage v)),
                      (''bookingNumber'',
                       JsonString (''TB'' @ lastDigits 6 (nat (dateNow env))
                                     @ lastDigits 3 (randomThousand env)))])"
proof -
  have n: "bookingNumberOf env =
             ''TB'' @ lastDigits 6 (nat (dateNow env)) @ lastDigits 3 (randomThousand env)"
    using assms by (rule generateBookingNumber_digits)
  have m: "lastDigits 6 (nat (dateNow env)) = lastDigits 6 (nat (dateNow env) mod 10 ^ 6)"
    by (rule lastDigits_mod [symmetric])
  have l: "length (bookingNumberOf env) = 11"
    unfolding n by (simp add: lastDigits_length)
  have d: "set (lastDigits 6 (nat (dateNow env)) @ lastDigits 3 (randomThousand env))
             \<subseteq> set decimalDigits"
    using lastDigits_chars [of 6 "nat (dateNow env)"] lastDigits_chars [of 3 "randomThousand env"]
    by simp
  have r: "body (snd (book_ride v env st bookingData)) =
             Json [(''success'', JsonBool True),
                   (''message'', JsonString (bookingConfirmedMessage v)),
                   (''bookingNumber'',
                    JsonString (''TB'' @ lastDigits 6 (nat (dateNow env))
                                  @ lastDigits 3 (randomThousand env)))]"
    if ok: "status (snd (book_ride v env st bookingData)) = 200"
  proof -
    have "status (bookingFailed v) = 500" by (simp add: bookingFailed_def)
    with ok book_ride_response [of v env st bookingData]
    have "snd (book_ride v env st bookingData) = bookingConfirmed v (bookingNumberOf env)"
      by auto
    then show ?thesis unfolding n by (simp add: bookingConfirmed_def)
  qed
  from n m l d r show ?thesis by (simp add: lastDigits_length)
qed

theorem generateBookingNumber_pattern_witness:
  "bookingNumberOf sampleEnv = ''TB200000007''
   \<and> lastDigits 6 (nat (dateNow sampleEnv)) = ''200000''
   \<and> lastDigits 3 (randomThousand sampleEnv) = ''007''
   \<and> body (snd (book_ride English sampleEnv emptyState sampleBody)) =
       Json [(''success'', JsonBool True),
             (''message'', JsonString ''Booking confirmed! Check your email (spam folder) for details.''),
             (''bookingNumber'', JsonString ''TB200000007'')]"
proof -
  have a: "100000 \<le> dateNow sampleEnv" "randomThousand sampleEnv < 1000"
    by (simp_all add: sampleEnv_def)
  have r: "snd (book_ride English sampleEnv emptyState sampleBody)
             = bookingConfirmed English (bookingNumberOf sampleEnv)"
    by (rule book_ride_sample [OF sampleEnv_strings' sampleEnv_locale' sampleEnv_sends])
  then have ok: "status (snd (book_ride English sampleEnv emptyState sampleBody)) = 200"
    by (simp add: bookingConfirmed_def)
  have t: "lastDigits 6 (nat (dateNow sampleEnv)) = ''200000''"
    by (simp add: sampleEnv_def lastDigits_numeral digitChar_simps)
  have u: "lastDigits 3 (randomThousand sampleEnv) = ''007''"
    by (simp add: sampleEnv_def lastDigits_numeral digitChar_simps)
  from generateBookingNumber_pattern [OF a, of English emptyState sampleBody] ok
  show ?thesis by (simp add: t u)
qed

section \<open>The body of a failed booking\<close>

text \<open>
  C9, as the code has it. In the German and the English server a 500 response of the
  booking handler is one fixed body, \<open>success: false\<close> with a fixed text, so that two
  failing requests get the same body whatever was thrown. In the server without a store
  a 500 response carries, next to a fixed text, the message of the error with which the
  transport rejected one of the mails handed to it.
\<close>

theorem booking_failure_body:
  "(status (snd (book_ride v env st bookingData)) = 500 \<longrightarrow>
      snd (book_ride v env st bookingData) =
        \<lparr>status = 500,
         body = Json [(''success'', JsonBool False),
                      (''error'', JsonString (bookingFailedMessage v))]\<rparr>)
   \<and> (status (snd (book_ride v env st bookingData)) = 500
        \<and> status (snd (book_ride v env' st' bookingData')) = 500 \<longrightarrow>
      body (snd (book_ride v env st bookingData)) = body (snd (book_ride v env' st' bookingData')))
   \<and> (book_ride3 env bookingData = Inr (ms, res) \<and> status res = 500 \<longrightarrow>
        (\<exists>m error. m \<in> set ms \<and> sendMail env m = Some error
           \<and> body res = Json [(''message'', JsonString ''Failed to process booking. Please try again.''),
                              (''error'', JsonString (message error))]))"
proof (intro conjI impI)
  assume "status (snd (book_ride v env st bookingData)) = 500"
  from book_ride_failed [OF this]
  show "snd (book_ride v env st bookingData) =
          \<lparr>status = 500,
           body = Json [(''success'', JsonBool False),
                        (''error'', JsonString (bookingFailedMessage v))]\<rparr>"
    by (simp add: bookingFailed_def)
next
  assume a: "status (snd (book_ride v env st bookingData)) = 500
             \<and> status (snd (book_ride v env' st' bookingData')) = 500"
  then have "snd (book_ride v env st bookingData) = bookingFailed v"
    and "snd (book_ride v env' st' bookingData') = bookingFailed v"
    by (simp_all add: book_ride_failed)
  then show "body (snd (book_ride v env st bookingData))
               = body (snd (book_ride v env' st' bookingData'))"
    by simp
next
  assume a: "book_ride3 env bookingData = Inr (ms, res) \<and> status res = 500"
  then have "res \<noteq> bookingConfirmed3" by (auto simp: bookingConfirmed3_def)
  with a book_ride3_cases [of env bookingData ms res]
  obtain m error where "m \<in> set ms" "sendMail env m = Some error" "res = bookingFailed3 error"
    by blast
  then show "\<exists>m error. m \<in> set ms \<and> sendMail env m = Some error
           \<and> body res = Json [(''message'', JsonString ''Failed to process booking. Please try again.''),
                              (''error'', JsonString (message error))]"
    by (auto simp: bookingFailed3_def)
qed

theorem booking_failure_body_witness:
  "body (snd (book_ride English (sampleEnv\<lparr>sendMail := \<lambda>m. Some (JsError ''Invalid login'')\<rparr>)
                emptyState sampleBody))
     = Json [(''success'', JsonBool False),
             (''error'', JsonString ''Failed to process booking. Please try again.'')]
   \<and> body (snd (book_ride English (sampleEnv\<lparr>sendMail := \<lambda>m. Some (JsError ''Invalid login'')\<rparr>)
                emptyState sampleBody))
     = body (snd (book_ride English (sampleEnv\<lparr>sendMail := \<lambda>m. Some (JsError ''connect ETIMEDOUT'')\<rparr>)
                emptyState sampleBody))
   \<and> (\<exists>ms res. book_ride3 (sampleEnv\<lparr>sendMail := \<lambda>m. Some (JsError ''Invalid login'')\<rparr>) sampleBody
                   = Inr (ms, res)
         \<and> body res = Json [(''message'', JsonString ''Failed to process booking. Please try again.''),
                            (''error'', JsonString ''Invalid login'')])"
proof -
  let ?e1 = "sampleEnv\<lparr>sendMail := \<lambda>m. Some (JsError ''Invalid login'')\<rparr>"
  let ?e2 = "sampleEnv\<lparr>sendMail := \<lambda>m. Some (JsError ''connect ETIMEDOUT'')\<rparr>"
  have f: "status (snd (book_ride English env emptyState sampleBody)) = 500"
    if "\<And>a. \<exists>s. stringOfOther env a = Inr s" "\<And>a. \<exists>s. localeOfOther env a = Inr s"
      "\<And>m. sendMail env m \<noteq> None" for env :: "unit env"
  proof -
    from bookingMails_total [OF that(1,2)]
    obtain customer admin where
      "bookingMails English env (bookingNumberOf env) sampleBody (cancellationUrlOf English env)
         = Inr (customer, admin)"
      by blast
    from book_ride_Inr [OF this] show ?thesis by (simp add: that(3) bookingFailed_def)
  qed
  have s1: "status (snd (book_ride English ?e1 emptyState sampleBody)) = 500"
    by (rule f [OF sampleEnv_strings sampleEnv_locale]) simp
  have s2: "status (snd (book_ride English ?e2 emptyState sampleBody)) = 500"
    by (rule f [OF sampleEnv_strings sampleEnv_locale]) simp
  have "\<exists>ms. book_ride3 ?e1 sampleBody = Inr (ms, bookingFailed3 (JsError ''Invalid login''))"
    by (rule book_ride3_rejected [OF sampleEnv_strings]) simp
  then obtain ms where m: "book_ride3 ?e1 sampleBody = Inr (ms, bookingFailed3 (JsError ''Invalid login''))"
    by blast
  have s3: "status (bookingFailed3 (JsError ''Invalid login'')) = 500"
    by (simp add: bookingFailed3_def)
  from booking_failure_body
         [where v = English and env = ?e1 and st = emptyState and bookingData = sampleBody
            and env' = ?e2 and st' = emptyState and bookingData' = sampleBody
            and ms = ms and res = "bookingFailed3 (JsError ''Invalid login'')"]
       s1 s2 m s3
  show ?thesis
    by (auto simp: bookingFailed3_def)
qed

text \<open>
  C9 as stated fails on the server without a store: the same request, failed by two
  different transport errors, gets two different 500 bodies, each holding the message
  of its error.
\<close>

theorem booking_failure_body_counterexample:
  "\<exists>ms1 ms2 res1 res2.
     book_ride3 (sampleEnv\<lparr>sendMail := \<lambda>m. Some (JsError ''Invalid login'')\<rparr>) sampleBody
       = Inr (ms1, res1)
     \<and> book_ride3 (sampleEnv\<lparr>sendMail := \<lambda>m. Some (JsError ''connect ETIMEDOUT'')\<rparr>) sampleBody
       = Inr (ms2, res2)
     \<and> res1 = \<lparr>status = 500,
               body = Json [(''message'', JsonString ''Failed to process booking. Please try again.''),
                            (''error'', JsonString ''Invalid login'')]\<rparr>
     \<and> res2 = \<lparr>status = 500,
               body = Json [(''message'', JsonString ''Failed to process booking. Please try again.''),
                            (''error'', JsonString ''connect ETIMEDOUT'')]\<rparr>
     \<and> body res1 \<noteq> body res2"
proof -
  have "\<exists>ms. book_ride3 (sampleEnv\<lparr>sendMail := \<lambda>m. Some (JsError ''Invalid login'')\<rparr>)
      sampleBody = Inr (ms, bookingFailed3 (JsError ''Invalid login''))"
    by (rule book_ride3_rejected [OF sampleEnv_strings]) simp
  then obtain ms1 where a: "book_ride3 (sampleEnv\<lparr>sendMail := \<lambda>m. Some (JsError ''Invalid login'')\<rparr>)
      sampleBody = Inr (ms1, bookingFailed3 (JsError ''Invalid login''))"
    by blast
  have "\<exists>ms. book_ride3 (sampleEnv\<lparr>sendMail := \<lambda>m. Some (JsError ''connect ETIMEDOUT'')\<rparr>)
      sampleBody = Inr (ms, bookingFailed3 (JsError ''connect ETIMEDOUT''))"
    by (rule book_ride3_rejected [OF sampleEnv_strings]) simp
  then obtain ms2 where b: "book_ride3 (sampleEnv\<lparr>sendMail := \<lambda>m. Some (JsError ''connect ETIMEDOUT'')\<rparr>)
      sampleBody = Inr (ms2, bookingFailed3 (JsError ''connect ETIMEDOUT''))"
    by blast
  show ?thesis
    unfolding a b by (simp add: bookingFailed3_def)
qed

section \<open>The spread of the request body\<close>

text \<open>
  C10. The stored record is \<open>{ bookingNumber, ...bookingData, timestamp }\<close>: when the body
  of the request has a \<open>bookingNumber\<close> property of its own, the stored record holds the
  client's value, while a successful response returns the number the server generated;
  the \<open>timestamp\<close> of the stored record is the server's, whatever the body holds.
\<close>

theorem stored_bookingNumber_is_the_clients:
  assumes "bookingData ''bookingNumber'' = Some x"
  shows "activeBookings (fst (book_ride v env st bookingData)) (tokenOf env)
           = Some (recordOf env bookingData)
         \<and> getProp (recordOf env bookingData) ''bookingNumber'' = x
         \<and> getProp (recordOf env bookingData) ''timestamp'' = JStr (toISOString env)
         \<and> (status (snd (book_ride v env st bookingData)) = 200 \<longrightarrow>
              body (snd (book_ride v env st bookingData)) =
                Json [(''success'', JsonBool True),
                      (''message'', JsonString (bookingConfirmedMessage v)),
                      (''bookingNumber'', JsonString (bookingNumberOf env))])"
proof (intro conjI impI)
  show "activeBookings (fst (book_ride v env st bookingData)) (tokenOf env)
          = Some (recordOf env bookingData)"
    by (simp add: book_ride_store)
  show "getProp (recordOf env bookingData) ''bookingNumber'' = x"
    by (simp add: getProp_def bookingRecord_bookingNumber assms)
  show "getProp (recordOf env bookingData) ''timestamp'' = JStr (toISOString env)"
    by (simp add: getProp_def bookingRecord_timestamp)
next
  assume ok: "status (snd (book_ride v env st bookingData)) = 200"
  have "status (bookingFailed v) = 500" by (simp add: bookingFailed_def)
  with ok book_ride_response [of v env st bookingData]
  have "snd (book_ride v env st bookingData) = bookingConfirmed v (bookingNumberOf env)"
    by auto
  then show "body (snd (book_ride v env st bookingData)) =
               Json [(''success'', JsonBool True),
                     (''message'', JsonString (bookingConfirmedMessage v)),
                     (''bookingNumber'', JsonString (bookingNumberOf env))]"
    by (simp add: bookingConfirmed_def)
qed

theorem stored_bookingNumber_is_the_clients_witness:
  "getProp (the (activeBookings
       (fst (book_ride English sampleEnv emptyState
               (sampleBody(''bookingNumber'' \<mapsto> JStr ''TB000000000'',
                           ''timestamp'' \<mapsto> JStr ''1999-01-01T00:00:00.000Z''))))
       (tokenOf sampleEnv))) ''bookingNumber'' = JStr ''TB000000000''
   \<and> getProp (the (activeBookings
       (fst (book_ride English sampleEnv emptyState
               (sampleBody(''bookingNumber'' \<mapsto> JStr ''TB000000000'',
                           ''timestamp'' \<mapsto> JStr ''1999-01-01T00:00:00.000Z''))))
       (tokenOf sampleEnv))) ''timestamp'' = JStr ''2025-03-01T10:00:00.000Z''
   \<and> snd (book_ride English sampleEnv emptyState
               (sampleBody(''bookingNumber'' \<mapsto> JStr ''TB000000000'',
                           ''timestamp'' \<mapsto> JStr ''1999-01-01T00:00:00.000Z'')))
       = \<lparr>status = 200,
          body = Json [(''success'', JsonBool True),
                       (''message'', JsonString ''Booking confirmed! Check your email (spam folder) for details.''),
                       (''bookingNumber'', JsonString ''TB200000007'')]\<rparr>"
proof -
  let ?b = "sampleBody(''bookingNumber'' \<mapsto> JStr ''TB000000000'',
                       ''timestamp'' \<mapsto> JStr ''1999-01-01T00:00:00.000Z'')"
  have x: "?b ''bookingNumber'' = Some (JStr ''TB000000000'')" by simp
  have r: "snd (book_ride English sampleEnv emptyState ?b)
             = bookingConfirmed English (bookingNumberOf sampleEnv)"
    by (rule book_ride_sample [OF sampleEnv_strings' sampleEnv_locale' sampleEnv_sends])
  then have ok: "status (snd (book_ride English sampleEnv emptyState ?b)) = 200"
    by (simp add: bookingConfirmed_def)
  have iso: "toISOString sampleEnv = ''2025-03-01T10:00:00.000Z''" by (simp add: sampleEnv_def)
  from stored_bookingNumber_is_the_clients
         [where bookingData = ?b and x = "JStr ''TB000000000''" and v = English
            and env = sampleEnv and st = emptyState] x ok
  show ?thesis
    by (simp add: r bookingConfirmed_def sample_bookingNumber iso)
qed


end
